theory Spec2Isabelle
  imports Complex_Main
begin

section \<open>Python and SQLite primitives used by the invoice routes\<close>

text \<open>
  Strings are character lists; Python \<open>int\<close> is \<open>int\<close>; Python \<open>float\<close> values (prices,
  tax, totals) are IEEE 754 binary64 values with round-to-nearest-even arithmetic.
\<close>

subsection \<open>Decimal rendering: \<open>str(n)\<close> and the format spec \<open>03d\<close>\<close>

definition digit_char :: "nat \<Rightarrow> char" where
  "digit_char d = char_of (48 + d)"

fun nat_digits :: "nat \<Rightarrow> string" where
  "nat_digits n = (if n < 10 then [digit_char n] else nat_digits (n div 10) @ [digit_char (n mod 10)])"

declare nat_digits.simps [simp del]

text \<open>\<open>str(i)\<close> for a Python integer, as the f-strings of the error messages render it.\<close>

definition py_str :: "int \<Rightarrow> string" where
  "py_str i = (if i < 0 then CHR ''-'' # nat_digits (nat (- i)) else nat_digits (nat i))"

definition zfill :: "nat \<Rightarrow> string \<Rightarrow> string" where
  "zfill w s = replicate (w - length s) CHR ''0'' @ s"

text \<open>
  \<open>f"{i:03d}"\<close>: zero padding to a total width of three; the sign of a negative number
  counts towards the width and precedes the zeros.
\<close>

definition format_03d :: "int \<Rightarrow> string" where
  "format_03d i = (if i < 0 then CHR ''-'' # zfill 2 (nat_digits (nat (- i))) else zfill 3 (nat_digits (nat i)))"

subsection \<open>\<open>str.split\<close> and string comparison\<close>

text \<open>\<open>s.split(sep)\<close> for a one-character separator: one more part than separators.\<close>

fun py_split :: "char \<Rightarrow> string \<Rightarrow> string list" where
  "py_split sep [] = [[]]"
| "py_split sep (c # cs) =
     (if c = sep then [] # py_split sep cs
      else (case py_split sep cs of
              [] \<Rightarrow> [[c]]
            | p # ps \<Rightarrow> (c # p) # ps))"

text \<open>Python's \<open><\<close> on strings: lexicographic, by code point.\<close>

fun py_str_less :: "string \<Rightarrow> string \<Rightarrow> bool" where
  "py_str_less [] [] = False"
| "py_str_less [] (y # ys) = True"
| "py_str_less (x # xs) [] = False"
| "py_str_less (x # xs) (y # ys) =
     (if (of_char x :: nat) < of_char y then True
      else if (of_char y :: nat) < of_char x then False
      else py_str_less xs ys)"

subsection \<open>SQLite: \<open>SUBSTR(x, 5)\<close>, \<open>CAST(text AS INTEGER)\<close>, \<open>MAX\<close>, \<open>COALESCE\<close>\<close>

definition sql_substr_from5 :: "string \<Rightarrow> string" where
  "sql_substr_from5 s = drop 4 s"

definition sqlite_isspace :: "char \<Rightarrow> bool" where
  "sqlite_isspace c = (c = CHR '' '' \<or> (9 \<le> (of_char c :: nat) \<and> (of_char c :: nat) \<le> 13))"

definition is_digit :: "char \<Rightarrow> bool" where
  "is_digit c = (48 \<le> (of_char c :: nat) \<and> (of_char c :: nat) \<le> 57)"

definition digit_val :: "char \<Rightarrow> nat" where
  "digit_val c = of_char c - 48"

definition digits_value :: "string \<Rightarrow> nat" where
  "digits_value s = foldl (\<lambda>a c. a * 10 + digit_val c) 0 (takeWhile is_digit s)"

definition LARGEST_INT64 :: int where
  "LARGEST_INT64 = 9223372036854775807"

definition SMALLEST_INT64 :: int where
  "SMALLEST_INT64 = - 9223372036854775808"

text \<open>
  The cast of a text value to INTEGER: leading white space is skipped, an optional sign is
  read, then the longest prefix of decimal digits; no digits give 0, and a magnitude
  beyond the 64-bit range gives the nearest end of the range.
\<close>

definition sqlite_cast_integer :: "string \<Rightarrow> int" where
  "sqlite_cast_integer s =
     (let z = dropWhile sqlite_isspace s;
          neg = (case z of c # _ \<Rightarrow> c = CHR ''-'' | [] \<Rightarrow> False);
          z' = (case z of c # r \<Rightarrow> (if c = CHR ''-'' \<or> c = CHR ''+'' then r else z) | [] \<Rightarrow> z);
          u = int (digits_value z')
      in if u > LARGEST_INT64 then (if neg then SMALLEST_INT64 else LARGEST_INT64)
         else if neg then - u else u)"

definition sql_max :: "int list \<Rightarrow> int option" where
  "sql_max xs = (case xs of [] \<Rightarrow> None | x # r \<Rightarrow> Some (foldl max x r))"

definition sql_coalesce :: "int option \<Rightarrow> int \<Rightarrow> int" where
  "sql_coalesce v d = (case v of None \<Rightarrow> d | Some x \<Rightarrow> x)"


subsection \<open>Python \<open>float\<close>: IEEE 754 binary64\<close>

text \<open>
  A finite double is \<open>Finite m e\<close>, the number \<open>m * 2 ^ e\<close>; the operations return it
  with \<open>m\<close> odd, and zero as \<open>Finite 0 0\<close> (the two signed zeros are not told apart). The
  other values are the two infinities and NaN.
\<close>

datatype float64 = Finite int int | PosInf | NegInf | NaN

text \<open>The number of binary digits of a positive integer (Python's \<open>int.bit_length\<close>).\<close>

function bit_length :: "int \<Rightarrow> int" where
  "bit_length a = (if a \<le> 0 then 0 else bit_length (a div 2) + 1)"
  by pat_completeness auto
termination
  by (relation "measure nat") auto

declare bit_length.simps [simp del]

text \<open>The representation of \<open>m * 2 ^ e\<close> with an odd mantissa.\<close>

function dyadic :: "int \<Rightarrow> int \<Rightarrow> float64" where
  "dyadic m e = (if m = 0 then Finite 0 0 else if even m then dyadic (m div 2) (e + 1) else Finite m e)"
  by pat_completeness auto
termination
  by (relation "measure (\<lambda>(m, e). nat \<bar>m\<bar>)") auto

declare dyadic.simps [simp del]

text \<open>\<open>a / 2 ^ s\<close> rounded to the nearest integer, ties to the even one.\<close>

definition round_half_even :: "int \<Rightarrow> nat \<Rightarrow> int" where
  "round_half_even a s =
     (let d = 2 ^ s; quo = a div d; rem = a mod d
      in if d < 2 * rem \<or> (2 * rem = d \<and> odd quo) then quo + 1 else quo)"

text \<open>
  The double nearest to the exact number \<open>m * 2 ^ e\<close>: 53 significant bits, the exponent of
  the last place not below \<open>-1074\<close> (subnormal numbers), ties to even, and an infinity when
  the rounded magnitude reaches \<open>2 ^ 1024\<close>.
\<close>

definition float_round :: "int \<Rightarrow> int \<Rightarrow> float64" where
  "float_round m e =
     (if m = 0 then Finite 0 0
      else
        (let a = \<bar>m\<bar>;
             q = max (e + bit_length a - 53) (- 1074);
             M = (if q \<le> e then a else round_half_even a (nat (q - e)));
             x = (if q \<le> e then e else q)
         in if 1024 < bit_length M + x then (if m < 0 then NegInf else PosInf)
            else dyadic (if m < 0 then - M else M) x))"

text \<open>\<open>x + y\<close> on floats.\<close>

fun fadd :: "float64 \<Rightarrow> float64 \<Rightarrow> float64" where
  "fadd NaN y = NaN"
| "fadd x NaN = NaN"
| "fadd PosInf NegInf = NaN"
| "fadd NegInf PosInf = NaN"
| "fadd PosInf y = PosInf"
| "fadd x PosInf = PosInf"
| "fadd NegInf y = NegInf"
| "fadd x NegInf = NegInf"
| "fadd (Finite m1 e1) (Finite m2 e2) =
     (let e = min e1 e2 in float_round (m1 * 2 ^ nat (e1 - e) + m2 * 2 ^ nat (e2 - e)) e)"

text \<open>\<open>x * y\<close> on floats.\<close>

fun fmul :: "float64 \<Rightarrow> float64 \<Rightarrow> float64" where
  "fmul NaN y = NaN"
| "fmul x NaN = NaN"
| "fmul (Finite m1 e1) (Finite m2 e2) = float_round (m1 * m2) (e1 + e2)"
| "fmul (Finite m e) PosInf = (if m = 0 then NaN else if m < 0 then NegInf else PosInf)"
| "fmul (Finite m e) NegInf = (if m = 0 then NaN else if m < 0 then PosInf else NegInf)"
| "fmul PosInf (Finite m e) = (if m = 0 then NaN else if m < 0 then NegInf else PosInf)"
| "fmul NegInf (Finite m e) = (if m = 0 then NaN else if m < 0 then PosInf else NegInf)"
| "fmul PosInf PosInf = PosInf"
| "fmul NegInf NegInf = PosInf"
| "fmul PosInf NegInf = NegInf"
| "fmul NegInf PosInf = NegInf"

text \<open>\<open>x < 0\<close> on a float: false for NaN.\<close>

definition float_negative :: "float64 \<Rightarrow> bool" where
  "float_negative x = (case x of Finite m e \<Rightarrow> m < 0 | NegInf \<Rightarrow> True | _ \<Rightarrow> False)"

text \<open>The double written by an integer literal such as \<open>5000.00\<close>.\<close>

definition whole :: "int \<Rightarrow> float64" where
  "whole n = float_round n 0"


subsection \<open>Exceptions\<close>

text \<open>
  The exceptions the routes raise or meet: FastAPI's \<open>HTTPException\<close>, Python's
  \<open>OverflowError\<close> and \<open>TypeError\<close>, and \<open>sqlite3.IntegrityError\<close> and
  \<open>sqlite3.OperationalError\<close>, each with its message.
\<close>

datatype py_exception =
    HTTPException (status_code: int) (detail: string)
  | OverflowError string
  | TypeError string
  | IntegrityError string
  | OperationalError string

text \<open>\<open>str(e)\<close>: the message of the exception (status and detail for an \<open>HTTPException\<close>).\<close>

fun exception_str :: "py_exception \<Rightarrow> string" where
  "exception_str (HTTPException s d) = py_str s @ '': '' @ d"
| "exception_str (OverflowError msg) = msg"
| "exception_str (TypeError msg) = msg"
| "exception_str (IntegrityError msg) = msg"
| "exception_str (OperationalError msg) = msg"

text \<open>
  \<open>float(i)\<close>, as the multiplication of a float by an \<open>int\<close> converts its operand: the
  nearest double, and an OverflowError when there is none.
\<close>

definition float_of_int :: "int \<Rightarrow> py_exception + float64" where
  "float_of_int i =
     (case float_round i 0 of
        PosInf \<Rightarrow> Inl (OverflowError ''int too large to convert to float'')
      | NegInf \<Rightarrow> Inl (OverflowError ''int too large to convert to float'')
      | x \<Rightarrow> Inr x)"

text \<open>\<open>x * i\<close> for a float \<open>x\<close> and an \<open>int\<close> \<open>i\<close>.\<close>

definition float_mul_int :: "float64 \<Rightarrow> int \<Rightarrow> py_exception + float64" where
  "float_mul_int x i = (case float_of_int i of Inl e \<Rightarrow> Inl e | Inr y \<Rightarrow> Inr (fmul x y))"

text \<open>
  Binding a Python \<open>int\<close> to a statement parameter: \<open>sqlite3\<close> raises an OverflowError for an
  integer outside the signed 64-bit range.
\<close>

definition sqlite_int :: "int \<Rightarrow> bool" where
  "sqlite_int i = (SMALLEST_INT64 \<le> i \<and> i \<le> LARGEST_INT64)"

definition int_too_large :: py_exception where
  "int_too_large = OverflowError ''Python int too large to convert to SQLite INTEGER''"

section \<open>The store\<close>

record ProductRow =
  p_id :: int
  p_name :: string
  p_price :: float64

record ClientRow =
  c_id :: int
  c_name :: string
  c_address :: string
  c_company_registration_no :: string

record InvoiceRow =
  i_id :: int
  i_invoice_no :: string
  i_issue_date :: string
  i_due_date :: string
  i_client_id :: int
  i_address :: string
  i_tax :: float64
  i_total :: float64

record InvoiceItemRow =
  ii_id :: int
  ii_invoice_id :: int
  ii_product_id :: int
  ii_quantity :: int
  ii_unit_price :: float64
  ii_subtotal :: float64

text \<open>
  The four tables in row order, and for the two AUTOINCREMENT tables written by the routes
  the largest row id ever handed out (SQLite's \<open>sqlite_sequence\<close> entry).
\<close>

record database =
  clients :: "ClientRow list"
  products :: "ProductRow list"
  invoices :: "InvoiceRow list"
  invoice_items :: "InvoiceItemRow list"
  invoices_seq :: int
  invoice_items_seq :: int

section \<open>Invoice numbering\<close>

definition invoice_suffix :: "string \<Rightarrow> int" where
  "invoice_suffix no = sqlite_cast_integer (sql_substr_from5 no)"

definition get_next_invoice_number :: "database \<Rightarrow> string" where
  "get_next_invoice_number conn =
     (let max_num = sql_coalesce (sql_max (map (\<lambda>r. invoice_suffix (i_invoice_no r)) (invoices conn))) 0;
          invoice_number = max_num + 1
      in ''INV-'' @ format_03d invoice_number)"

section \<open>Requests and responses\<close>

record InvoiceItemRequest =
  product_id :: int
  quantity :: int

record InvoiceCreate =
  client_id :: int
  issue_date :: string
  due_date :: string
  tax :: float64
  items :: "InvoiceItemRequest list"

record ClientResponse =
  cr_id :: int
  cr_name :: string
  cr_address :: string
  cr_company_registration_no :: string

record InvoiceItemResponse =
  ir_id :: int
  ir_product_id :: int
  ir_product_name :: string
  ir_quantity :: int
  ir_unit_price :: float64
  ir_subtotal :: float64

record InvoiceResponse =
  r_id :: int
  r_invoice_no :: string
  r_issue_date :: string
  r_due_date :: string
  r_client :: ClientResponse
  r_address :: string
  r_items :: "InvoiceItemResponse list"
  r_tax :: float64
  r_total :: float64

section \<open>Queries\<close>

definition fetchone :: "'a list \<Rightarrow> 'a option" where
  "fetchone rows = (case rows of [] \<Rightarrow> None | r # _ \<Rightarrow> Some r)"

text \<open>\<open>SELECT ... FROM clients WHERE id = ?\<close> and \<open>SELECT ... FROM products WHERE id = ?\<close>\<close>

definition select_client :: "database \<Rightarrow> int \<Rightarrow> ClientRow list" where
  "select_client conn cid = filter (\<lambda>c. c_id c = cid) (clients conn)"

definition select_product :: "database \<Rightarrow> int \<Rightarrow> ProductRow list" where
  "select_product conn pid = filter (\<lambda>p. p_id p = pid) (products conn)"


text \<open>\<open>FROM invoices i JOIN clients c ON i.client_id = c.id WHERE i.id = ?\<close>\<close>

definition select_invoice_with_client :: "database \<Rightarrow> int \<Rightarrow> (InvoiceRow \<times> ClientRow) list" where
  "select_invoice_with_client conn invoice_id =
     concat (map (\<lambda>i. map (\<lambda>c. (i, c)) (filter (\<lambda>c. i_client_id i = c_id c) (clients conn)))
                 (filter (\<lambda>i. i_id i = invoice_id) (invoices conn)))"

text \<open>
  \<open>FROM invoice_items ii JOIN products p ON ii.product_id = p.id WHERE ii.invoice_id = ?
  ORDER BY ii.id\<close>
\<close>

definition select_items_with_product :: "database \<Rightarrow> int \<Rightarrow> (InvoiceItemRow \<times> ProductRow) list" where
  "select_items_with_product conn invoice_id =
     concat (map (\<lambda>ii. map (\<lambda>p. (ii, p)) (filter (\<lambda>p. ii_product_id ii = p_id p) (products conn)))
                 (sort_key ii_id (filter (\<lambda>ii. ii_invoice_id ii = invoice_id) (invoice_items conn))))"

text \<open>
  The row id an AUTOINCREMENT table gives to an inserted row: one more than the largest id
  the table holds or has ever held. When that largest id is the largest 64-bit integer the
  insert fails with \<open>SQLITE_FULL\<close>.
\<close>

definition next_rowid :: "int \<Rightarrow> int list \<Rightarrow> int" where
  "next_rowid seq ids = foldl max seq ids + 1"

definition rowids_exhausted :: "int \<Rightarrow> int list \<Rightarrow> bool" where
  "rowids_exhausted seq ids = (LARGEST_INT64 \<le> foldl max seq ids)"

definition database_full :: py_exception where
  "database_full = OperationalError ''database or disk is full''"

section \<open>Validation\<close>

text \<open>
  The loop \<open>for idx, item in enumerate(invoice.items)\<close> of \<open>validate_invoice_input\<close>. The
  product id is bound to the parameter of the lookup, which raises for an id outside the
  64-bit range.
\<close>

fun validate_items :: "database \<Rightarrow> nat \<Rightarrow> InvoiceItemRequest list \<Rightarrow> py_exception + unit" where
  "validate_items conn idx [] = Inr ()"
| "validate_items conn idx (item # rest) =
     (if quantity item \<le> 0 then
        Inl (HTTPException 400 (''Item '' @ py_str (int idx + 1) @ '': Quantity must be greater than 0''))
      else if \<not> sqlite_int (product_id item) then Inl int_too_large
      else if fetchone (select_product conn (product_id item)) = None then
        Inl (HTTPException 400 (''Product '' @ py_str (product_id item) @ '' not found''))
      else validate_items conn (idx + 1) rest)"

text \<open>
  \<open>validate_invoice_input\<close>: the first check that fails raises. The client id is bound to the
  parameter of the client lookup, which raises for an id outside the 64-bit range. The tax
  check is \<open>invoice.tax < 0\<close>, which NaN passes.
\<close>

definition validate_invoice_input :: "database \<Rightarrow> InvoiceCreate \<Rightarrow> py_exception + unit" where
  "validate_invoice_input conn invoice =
     (let issue_parts = py_split CHR ''-'' (issue_date invoice);
          due_parts = py_split CHR ''-'' (due_date invoice)
      in if length issue_parts \<noteq> 3 \<or> length due_parts \<noteq> 3 then
           Inl (HTTPException 400 ''Dates must be in format YYYY-MM-DD'')
         else if py_str_less (due_date invoice) (issue_date invoice) then
           Inl (HTTPException 400 ''Due date must be after or equal to issue date'')
         else if \<not> sqlite_int (client_id invoice) then Inl int_too_large
         else if fetchone (select_client conn (client_id invoice)) = None then
           Inl (HTTPException 400 (''Client '' @ py_str (client_id invoice) @ '' not found''))
         else if items invoice = [] then
           Inl (HTTPException 400 ''Invoice must have at least one item'')
         else if float_negative (tax invoice) then
           Inl (HTTPException 400 ''Tax cannot be negative'')
         else validate_items conn 0 (items invoice))"

section \<open>Creating an invoice\<close>

text \<open>The message of the TypeError raised by subscripting \<open>None\<close>.\<close>

definition none_not_subscriptable :: py_exception where
  "none_not_subscriptable =
     TypeError ([CHR 0x27] @ ''NoneType'' @ [CHR 0x27] @ '' object is not subscriptable'')"

text \<open>
  The first loop over the items: the running subtotal, \<open>subtotal += product_price *
  item.quantity\<close>. Subscripting the \<open>None\<close> that \<open>fetchone\<close> returns when no product row
  matches raises a TypeError.
\<close>

fun calc_subtotal :: "database \<Rightarrow> float64 \<Rightarrow> InvoiceItemRequest list \<Rightarrow> py_exception + float64" where
  "calc_subtotal conn subtotal [] = Inr subtotal"
| "calc_subtotal conn subtotal (item # rest) =
     (if \<not> sqlite_int (product_id item) then Inl int_too_large
      else case fetchone (select_product conn (product_id item)) of
        None \<Rightarrow> Inl none_not_subscriptable
      | Some p \<Rightarrow>
          (case float_mul_int (p_price p) (quantity item) of
             Inl e \<Rightarrow> Inl e
           | Inr line \<Rightarrow> calc_subtotal conn (fadd subtotal line) rest))"

text \<open>
  \<open>INSERT INTO invoices (invoice_no, issue_date, due_date, client_id, address, tax, total)\<close>:
  the parameters are bound (a NaN is bound as NULL), the row id is taken, then the NOT NULL
  and UNIQUE constraints of migration 004 are checked. The result is the new row id
  (\<open>cursor.lastrowid\<close>) and the store with the row.
\<close>

definition insert_invoice ::
  "database \<Rightarrow> string \<Rightarrow> string \<Rightarrow> string \<Rightarrow> int \<Rightarrow> string \<Rightarrow> float64 \<Rightarrow> float64
     \<Rightarrow> py_exception + int \<times> database" where
  "insert_invoice conn invoice_no issue due cid address tax_value total_value =
     (if \<not> sqlite_int cid then Inl int_too_large
      else if rowids_exhausted (invoices_seq conn) (map i_id (invoices conn)) then Inl database_full
      else if tax_value = NaN then Inl (IntegrityError ''NOT NULL constraint failed: invoices.tax'')
      else if total_value = NaN then Inl (IntegrityError ''NOT NULL constraint failed: invoices.total'')
      else if invoice_no \<in> set (map i_invoice_no (invoices conn)) then
        Inl (IntegrityError ''UNIQUE constraint failed: invoices.invoice_no'')
      else
        (let invoice_id = next_rowid (invoices_seq conn) (map i_id (invoices conn));
             row = \<lparr>i_id = invoice_id, i_invoice_no = invoice_no, i_issue_date = issue,
                    i_due_date = due, i_client_id = cid, i_address = address,
                    i_tax = tax_value, i_total = total_value\<rparr>
         in Inr (invoice_id, conn\<lparr>invoices := invoices conn @ [row], invoices_seq := invoice_id\<rparr>)))"

text \<open>
  \<open>INSERT INTO invoice_items (invoice_id, product_id, quantity, unit_price, subtotal)\<close>, with
  the NOT NULL constraints of migration 005.
\<close>

definition insert_invoice_item ::
  "database \<Rightarrow> int \<Rightarrow> int \<Rightarrow> int \<Rightarrow> float64 \<Rightarrow> float64 \<Rightarrow> py_exception + database" where
  "insert_invoice_item conn invoice_id pid qty unit_price subtotal =
     (if \<not> (sqlite_int invoice_id \<and> sqlite_int pid \<and> sqlite_int qty) then Inl int_too_large
      else if rowids_exhausted (invoice_items_seq conn) (map ii_id (invoice_items conn)) then Inl database_full
      else if unit_price = NaN then
        Inl (IntegrityError ''NOT NULL constraint failed: invoice_items.unit_price'')
      else if subtotal = NaN then
        Inl (IntegrityError ''NOT NULL constraint failed: invoice_items.subtotal'')
      else
        (let new_id = next_rowid (invoice_items_seq conn) (map ii_id (invoice_items conn));
             row = \<lparr>ii_id = new_id, ii_invoice_id = invoice_id, ii_product_id = pid,
                    ii_quantity = qty, ii_unit_price = unit_price, ii_subtotal = subtotal\<rparr>
         in Inr (conn\<lparr>invoice_items := invoice_items conn @ [row], invoice_items_seq := new_id\<rparr>)))"

text \<open>The second loop: one \<open>invoice_items\<close> row per requested item, in request order.\<close>

fun insert_items :: "database \<Rightarrow> int \<Rightarrow> InvoiceItemRequest list \<Rightarrow> py_exception + database" where
  "insert_items conn invoice_id [] = Inr conn"
| "insert_items conn invoice_id (item # rest) =
     (if \<not> sqlite_int (product_id item) then Inl int_too_large
      else case fetchone (select_product conn (product_id item)) of
        None \<Rightarrow> Inl none_not_subscriptable
      | Some p \<Rightarrow>
          (case float_mul_int (p_price p) (quantity item) of
             Inl e \<Rightarrow> Inl e
           | Inr subtotal \<Rightarrow>
               (case insert_invoice_item conn invoice_id (product_id item) (quantity item) (p_price p) subtotal of
                  Inl e \<Rightarrow> Inl e
                | Inr conn1 \<Rightarrow> insert_items conn1 invoice_id rest)))"

definition item_response :: "InvoiceItemRow \<times> ProductRow \<Rightarrow> InvoiceItemResponse" where
  "item_response row =
     \<lparr>ir_id = ii_id (fst row), ir_product_id = ii_product_id (fst row), ir_product_name = p_name (snd row),
      ir_quantity = ii_quantity (fst row), ir_unit_price = ii_unit_price (fst row),
      ir_subtotal = ii_subtotal (fst row)\<rparr>"

definition build_response :: "int \<Rightarrow> InvoiceRow \<times> ClientRow \<Rightarrow> (InvoiceItemRow \<times> ProductRow) list \<Rightarrow> InvoiceResponse" where
  "build_response cid invoice_row items_rows =
     \<lparr>r_id = i_id (fst invoice_row), r_invoice_no = i_invoice_no (fst invoice_row),
      r_issue_date = i_issue_date (fst invoice_row), r_due_date = i_due_date (fst invoice_row),
      r_client = \<lparr>cr_id = cid, cr_name = c_name (snd invoice_row), cr_address = c_address (snd invoice_row),
                  cr_company_registration_no = c_company_registration_no (snd invoice_row)\<rparr>,
      r_address = i_address (fst invoice_row), r_items = map item_response items_rows,
      r_tax = i_tax (fst invoice_row), r_total = i_total (fst invoice_row)\<rparr>"

text \<open>
  Modelled from the spec: \<open>get_db\<close> (\<open>app/database.py\<close> is not among the sources) is the
  transaction scope of a request. The block under \<open>with get_db() as conn\<close> runs on the
  store; when it returns, its writes are committed, and when it raises, they are rolled back
  and the exception goes on.
\<close>

definition get_db :: "database \<Rightarrow> (database \<Rightarrow> py_exception + 'a \<times> database) \<Rightarrow> (py_exception + 'a) \<times> database" where
  "get_db conn block =
     (case block conn of
        Inl e \<Rightarrow> (Inl e, conn)
      | Inr (v, conn') \<Rightarrow> (Inr v, conn'))"

text \<open>
  The two \<open>except\<close> clauses that close every route: an \<open>HTTPException\<close> is raised again as it
  is, any other exception becomes the 500 error \<open>Database error: \<close> followed by its message.
\<close>

definition database_error :: "string \<Rightarrow> py_exception" where
  "database_error msg = HTTPException 500 (''Database error: '' @ msg)"

fun except_clauses :: "py_exception \<Rightarrow> py_exception" where
  "except_clauses (HTTPException s d) = HTTPException s d"
| "except_clauses e = database_error (exception_str e)"

definition route :: "(py_exception + 'a) \<times> database \<Rightarrow> (py_exception + 'a) \<times> database" where
  "route outcome =
     (case fst outcome of
        Inl e \<Rightarrow> (Inl (except_clauses e), snd outcome)
      | Inr v \<Rightarrow> outcome)"

text \<open>
  The block of \<open>create_invoice\<close> under \<open>with get_db() as conn\<close>: validation, the client's
  address, the next number, the subtotal loop, \<open>total = subtotal + invoice.tax\<close>, the insert
  of the invoice row, the loop that inserts the item rows, and the joined reads from which
  the response is built.
\<close>

definition create_invoice_block :: "InvoiceCreate \<Rightarrow> database \<Rightarrow> py_exception + InvoiceResponse \<times> database" where
  "create_invoice_block invoice conn =
     (case validate_invoice_input conn invoice of
        Inl e \<Rightarrow> Inl e
      | Inr _ \<Rightarrow>
          if \<not> sqlite_int (client_id invoice) then Inl int_too_large
          else
            (let client = fetchone (select_client conn (client_id invoice));
                 invoice_no = get_next_invoice_number conn
             in case calc_subtotal conn (Finite 0 0) (items invoice) of
                  Inl e \<Rightarrow> Inl e
                | Inr subtotal \<Rightarrow>
                    (let total = fadd subtotal (tax invoice)
                     in case client of
                          None \<Rightarrow> Inl none_not_subscriptable
                        | Some cl \<Rightarrow>
                            (case insert_invoice conn invoice_no (issue_date invoice) (due_date invoice)
                                    (client_id invoice) (c_address cl) (tax invoice) total of
                               Inl e \<Rightarrow> Inl e
                             | Inr (invoice_id, conn1) \<Rightarrow>
                                 (case insert_items conn1 invoice_id (items invoice) of
                                    Inl e \<Rightarrow> Inl e
                                  | Inr conn2 \<Rightarrow>
                                      (case fetchone (select_invoice_with_client conn2 invoice_id) of
                                         None \<Rightarrow> Inl none_not_subscriptable
                                       | Some invoice_row \<Rightarrow>
                                           Inr (build_response (client_id invoice) invoice_row
                                                  (select_items_with_product conn2 invoice_id), conn2)))))))"

text \<open>
  \<open>create_invoice\<close>: the dictionary the route function returns or the \<open>HTTPException\<close> it
  raises, and the store after the request. The encoding of the returned dictionary as JSON
  is FastAPI's and is not part of the model.
\<close>

definition create_invoice :: "database \<Rightarrow> InvoiceCreate \<Rightarrow> (py_exception + InvoiceResponse) \<times> database" where
  "create_invoice conn invoice = route (get_db conn (create_invoice_block invoice))"

section \<open>Reading and deleting an invoice\<close>

definition get_invoice_block :: "int \<Rightarrow> database \<Rightarrow> py_exception + InvoiceResponse \<times> database" where
  "get_invoice_block invoice_id conn =
     (if \<not> sqlite_int invoice_id then Inl int_too_large
      else case fetchone (select_invoice_with_client conn invoice_id) of
        None \<Rightarrow> Inl (HTTPException 404 ''Invoice not found'')
      | Some invoice_row \<Rightarrow>
          Inr (build_response (c_id (snd invoice_row)) invoice_row (select_items_with_product conn invoice_id), conn))"

definition get_invoice :: "database \<Rightarrow> int \<Rightarrow> py_exception + InvoiceResponse" where
  "get_invoice conn invoice_id = fst (route (get_db conn (get_invoice_block invoice_id)))"

text \<open>\<open>DELETE FROM invoice_items WHERE invoice_id = ?\<close> and \<open>DELETE FROM invoices WHERE id = ?\<close>\<close>

definition delete_invoice_items :: "int \<Rightarrow> database \<Rightarrow> database" where
  "delete_invoice_items invoice_id conn =
     conn\<lparr>invoice_items := filter (\<lambda>ii. ii_invoice_id ii \<noteq> invoice_id) (invoice_items conn)\<rparr>"

definition delete_invoice_row :: "int \<Rightarrow> database \<Rightarrow> database" where
  "delete_invoice_row invoice_id conn =
     conn\<lparr>invoices := filter (\<lambda>i. i_id i \<noteq> invoice_id) (invoices conn)\<rparr>"

text \<open>
  The block of \<open>delete_invoice\<close>: the id is bound to the parameter of the existence check,
  which raises for an id outside the 64-bit range; then the items are deleted, then the row.
\<close>

definition delete_invoice_block :: "int \<Rightarrow> database \<Rightarrow> py_exception + unit \<times> database" where
  "delete_invoice_block invoice_id conn =
     (if \<not> sqlite_int invoice_id then Inl int_too_large
      else if fetchone (filter (\<lambda>i. i_id i = invoice_id) (invoices conn)) = None then
        Inl (HTTPException 404 ''Invoice not found'')
      else Inr ((), delete_invoice_row invoice_id (delete_invoice_items invoice_id conn)))"

definition delete_invoice :: "database \<Rightarrow> int \<Rightarrow> (py_exception + unit) \<times> database" where
  "delete_invoice conn invoice_id = route (get_db conn (delete_invoice_block invoice_id))"

text \<open>
  The referential constraint of migration 005: every item row refers to a stored invoice.
\<close>

definition items_reference_invoices :: "database \<Rightarrow> bool" where
  "items_reference_invoices conn =
     list_all (\<lambda>ii. ii_invoice_id ii \<in> set (map i_id (invoices conn))) (invoice_items conn)"

section \<open>Sequences of requests\<close>

datatype operation = Create InvoiceCreate | Delete int

text \<open>The invoice numbers handed out by the successful creates of a sequence of requests, in order.\<close>

fun assigned_numbers :: "database \<Rightarrow> operation list \<Rightarrow> string list" where
  "assigned_numbers conn [] = []"
| "assigned_numbers conn (Create invoice # ops) =
     (case create_invoice conn invoice of
        (Inl e, conn') \<Rightarrow> assigned_numbers conn' ops
      | (Inr resp, conn') \<Rightarrow> r_invoice_no resp # assigned_numbers conn' ops)"
| "assigned_numbers conn (Delete invoice_id # ops) =
     assigned_numbers (snd (delete_invoice conn invoice_id)) ops"

section \<open>The order of the validation checks, as a list\<close>

text \<open>
  Each check as a pair: whether it passes, and the exception it raises. The first six
  checks (the third is the binding of the client id to the client lookup), then three checks
  per item (the second is the binding of the product id to the product lookup) with the
  item's position counted from one.
\<close>

definition fixed_checks :: "database \<Rightarrow> InvoiceCreate \<Rightarrow> (bool \<times> py_exception) list" where
  "fixed_checks conn invoice =
     [(length (py_split CHR ''-'' (issue_date invoice)) = 3 \<and> length (py_split CHR ''-'' (due_date invoice)) = 3,
         HTTPException 400 ''Dates must be in format YYYY-MM-DD''),
      (\<not> py_str_less (due_date invoice) (issue_date invoice),
         HTTPException 400 ''Due date must be after or equal to issue date''),
      (sqlite_int (client_id invoice), int_too_large),
      (select_client conn (client_id invoice) \<noteq> [],
         HTTPException 400 (''Client '' @ py_str (client_id invoice) @ '' not found'')),
      (items invoice \<noteq> [], HTTPException 400 ''Invoice must have at least one item''),
      (\<not> float_negative (tax invoice), HTTPException 400 ''Tax cannot be negative'')]"

definition item_checks :: "database \<Rightarrow> nat \<Rightarrow> InvoiceItemRequest \<Rightarrow> (bool \<times> py_exception) list" where
  "item_checks conn pos item =
     [(0 < quantity item,
         HTTPException 400 (''Item '' @ py_str (int pos) @ '': Quantity must be greater than 0'')),
      (sqlite_int (product_id item), int_too_large),
      (select_product conn (product_id item) \<noteq> [],
         HTTPException 400 (''Product '' @ py_str (product_id item) @ '' not found''))]"

fun items_checks :: "database \<Rightarrow> nat \<Rightarrow> InvoiceItemRequest list \<Rightarrow> (bool \<times> py_exception) list" where
  "items_checks conn pos [] = []"
| "items_checks conn pos (item # rest) = item_checks conn pos item @ items_checks conn (Suc pos) rest"

definition ordered_checks :: "database \<Rightarrow> InvoiceCreate \<Rightarrow> (bool \<times> py_exception) list" where
  "ordered_checks conn invoice = fixed_checks conn invoice @ items_checks conn 1 (items invoice)"

definition first_failure :: "(bool \<times> py_exception) list \<Rightarrow> py_exception + unit" where
  "first_failure checks =
     (case find (\<lambda>c. \<not> fst c) checks of
        None \<Rightarrow> Inr ()
      | Some c \<Rightarrow> Inl (snd c))"

definition item_ok :: "database \<Rightarrow> InvoiceItemRequest \<Rightarrow> bool" where
  "item_ok conn item =
     (0 < quantity item \<and> sqlite_int (product_id item) \<and> select_product conn (product_id item) \<noteq> [])"

text \<open>The position, counted from one, of the first item that fails a per-item check.\<close>

definition first_failing_item :: "database \<Rightarrow> InvoiceItemRequest list \<Rightarrow> nat option" where
  "first_failing_item conn its =
     (if dropWhile (item_ok conn) its = [] then None else Some (Suc (length (takeWhile (item_ok conn) its))))"

fun occurs_in :: "string \<Rightarrow> string \<Rightarrow> bool" where
  "occurs_in s [] = (s = [])"
| "occurs_in s (c # cs) = (take (length s) (c # cs) = s \<or> occurs_in s cs)"

section \<open>The numeric suffix of an invoice number, read as a numeral\<close>






section \<open>The total of an invoice as a sum of doubles\<close>



text \<open>A double that is zero, positive or plus infinity: not negative and not NaN.\<close>

definition float_nonneg :: "float64 \<Rightarrow> bool" where
  "float_nonneg x = (case x of Finite m e \<Rightarrow> 0 \<le> m | PosInf \<Rightarrow> True | _ \<Rightarrow> False)"


section \<open>The migration units\<close>

text \<open>
  The store as the migration scripts see it: a table is \<open>None\<close> until it is created.
  \<open>migrations_ledger\<close> holds the \<open>name\<close> column of \<open>_migrations\<close>.
\<close>

record schema_store =
  migrations_ledger :: "string list option"
  products_table :: "ProductRow list option"
  clients_table :: "ClientRow list option"
  invoices_table :: "InvoiceRow list option"
  invoice_items_table :: "InvoiceItemRow list option"
  products_seq :: int
  clients_seq :: int

datatype migration =
    M002_create_products_table
  | M003_create_clients_table
  | M004_create_invoices_table
  | M005_create_invoice_items_table
  | M006_seed_products_and_clients

fun migration_name :: "migration \<Rightarrow> string" where
  "migration_name M002_create_products_table = ''002_create_products_table''"
| "migration_name M003_create_clients_table = ''003_create_clients_table''"
| "migration_name M004_create_invoices_table = ''004_create_invoices_table''"
| "migration_name M005_create_invoice_items_table = ''005_create_invoice_items_table''"
| "migration_name M006_seed_products_and_clients = ''006_seed_products_and_clients''"

definition create_table_if_not_exists :: "'a list option \<Rightarrow> 'a list option" where
  "create_table_if_not_exists t = (case t of None \<Rightarrow> Some [] | Some rows \<Rightarrow> Some rows)"

definition seed_products :: "(string \<times> float64) list" where
  "seed_products =
     [(''Web Development'', whole 5000), (''Mobile App Development'', whole 8000),
      (''UI/UX Design'', whole 2500), (''Cloud Infrastructure Setup'', whole 3500),
      (''Database Design & Optimization'', whole 2000), (''Technical Consulting'', whole 150),
      (''Quality Assurance Testing'', whole 1500), (''Maintenance & Support'', whole 1000)]"

definition seed_clients :: "(string \<times> string \<times> string) list" where
  "seed_clients =
     [(''Acme Corporation'', ''123 Business Ave, New York, NY 10001'', ''ACM-2024-001''),
      (''TechStart Inc.'', ''456 Innovation Blvd, San Francisco, CA 94105'', ''TECH-2024-002''),
      (''Global Solutions Ltd.'', ''789 Commerce Street, London, UK SW1A 1AA'', ''GLOB-2024-003''),
      (''Bright Ventures LLC'', ''321 Enterprise Way, Austin, TX 78701'', ''BRIT-2024-004''),
      (''Coastal Trading Co.'', ''654 Harbor Road, Miami, FL 33101'', ''COAST-2024-005'')]"

text \<open>\<open>executemany\<close> of an INSERT: the rows are appended one by one, each with a fresh row id.\<close>

fun insert_products :: "(string \<times> float64) list \<Rightarrow> ProductRow list \<times> int \<Rightarrow> ProductRow list \<times> int" where
  "insert_products [] tbl = tbl"
| "insert_products (v # rest) tbl =
     (let new_id = next_rowid (snd tbl) (map p_id (fst tbl))
      in insert_products rest (fst tbl @ [\<lparr>p_id = new_id, p_name = fst v, p_price = snd v\<rparr>], new_id))"

fun insert_clients :: "(string \<times> string \<times> string) list \<Rightarrow> ClientRow list \<times> int \<Rightarrow> ClientRow list \<times> int" where
  "insert_clients [] tbl = tbl"
| "insert_clients (v # rest) tbl =
     (let new_id = next_rowid (snd tbl) (map c_id (fst tbl))
      in insert_clients rest
           (fst tbl @ [\<lparr>c_id = new_id, c_name = fst v, c_address = fst (snd v),
                        c_company_registration_no = snd (snd v)\<rparr>], new_id))"

text \<open>
  The statements of a unit's \<open>upgrade\<close> between the ledger check and the ledger insert. An
  insert into a table that does not exist raises, and nothing of the unit is committed.
\<close>

fun forward :: "migration \<Rightarrow> schema_store \<Rightarrow> py_exception + schema_store" where
  "forward M002_create_products_table s =
     Inr (s\<lparr>products_table := create_table_if_not_exists (products_table s)\<rparr>)"
| "forward M003_create_clients_table s =
     Inr (s\<lparr>clients_table := create_table_if_not_exists (clients_table s)\<rparr>)"
| "forward M004_create_invoices_table s =
     Inr (s\<lparr>invoices_table := create_table_if_not_exists (invoices_table s)\<rparr>)"
| "forward M005_create_invoice_items_table s =
     Inr (s\<lparr>invoice_items_table := create_table_if_not_exists (invoice_items_table s)\<rparr>)"
| "forward M006_seed_products_and_clients s =
     (case products_table s of
        None \<Rightarrow> Inl (OperationalError ''no such table: products'')
      | Some prows \<Rightarrow>
          (case clients_table s of
             None \<Rightarrow> Inl (OperationalError ''no such table: clients'')
           | Some crows \<Rightarrow>
               (let ptbl = insert_products seed_products (prows, products_seq s);
                    ctbl = insert_clients seed_clients (crows, clients_seq s)
                in Inr (s\<lparr>products_table := Some (fst ptbl), products_seq := snd ptbl,
                          clients_table := Some (fst ctbl), clients_seq := snd ctbl\<rparr>))))"

text \<open>
  \<open>upgrade\<close> of a unit: the ledger is read first; a unit whose name is there returns at
  once; otherwise the forward statements run and the name is recorded.
\<close>

definition upgrade :: "migration \<Rightarrow> schema_store \<Rightarrow> py_exception + schema_store" where
  "upgrade m s =
     (case migrations_ledger s of
        None \<Rightarrow> Inl (OperationalError ''no such table: _migrations'')
      | Some applied \<Rightarrow>
          if migration_name m \<in> set applied then Inr s
          else (case forward m s of
                  Inl e \<Rightarrow> Inl e
                | Inr s' \<Rightarrow> Inr (s'\<lparr>migrations_ledger := Some (applied @ [migration_name m])\<rparr>)))"


section \<open>Concrete stores and requests\<close>

definition scenario_db :: database where
  "scenario_db =
     \<lparr>clients = [\<lparr>c_id = 1, c_name = ''Acme Corporation'', c_address = ''123 Business Ave, New York, NY 10001'',
                   c_company_registration_no = ''ACM-2024-001''\<rparr>],
      products = [\<lparr>p_id = 1, p_name = ''Web Development'', p_price = whole 5000\<rparr>,
                  \<lparr>p_id = 2, p_name = ''Consulting'', p_price = whole 150\<rparr>],
      invoices = [], invoice_items = [], invoices_seq = 0, invoice_items_seq = 0\<rparr>"

definition scenario_request :: InvoiceCreate where
  "scenario_request =
     \<lparr>client_id = 1, issue_date = ''2024-03-01'', due_date = ''2024-03-31'', tax = whole 50,
      items = [\<lparr>product_id = 1, quantity = 1\<rparr>, \<lparr>product_id = 2, quantity = 2\<rparr>]\<rparr>"

definition ledger_only_store :: schema_store where
  "ledger_only_store =
     \<lparr>migrations_ledger = Some [], products_table = None, clients_table = None, invoices_table = None,
      invoice_items_table = None, products_seq = 0, clients_seq = 0\<rparr>"

definition invoice_numbered :: "int \<Rightarrow> string \<Rightarrow> InvoiceRow" where
  "invoice_numbered k no =
     \<lparr>i_id = k, i_invoice_no = no, i_issue_date = ''2024-03-01'', i_due_date = ''2024-03-31'',
      i_client_id = 1, i_address = ''123 Business Ave, New York, NY 10001'', i_tax = whole 0, i_total = whole 5000\<rparr>"

definition db_past_999 :: database where
  "db_past_999 =
     scenario_db\<lparr>invoices := [invoice_numbered 998 ''INV-998'', invoice_numbered 999 ''INV-999''],
                  invoices_seq := 999\<rparr>"

text \<open>The state after the request of the scenario has been served on \<open>scenario_db\<close>.\<close>

definition scenario_db_created :: database where
  "scenario_db_created =
     scenario_db\<lparr>
       invoices := [\<lparr>i_id = 1, i_invoice_no = ''INV-001'', i_issue_date = ''2024-03-01'',
                     i_due_date = ''2024-03-31'', i_client_id = 1,
                     i_address = ''123 Business Ave, New York, NY 10001'', i_tax = whole 50, i_total = whole 5350\<rparr>],
       invoice_items := [\<lparr>ii_id = 1, ii_invoice_id = 1, ii_product_id = 1, ii_quantity = 1,
                           ii_unit_price = whole 5000, ii_subtotal = whole 5000\<rparr>,
                         \<lparr>ii_id = 2, ii_invoice_id = 1, ii_product_id = 2, ii_quantity = 2,
                           ii_unit_price = whole 150, ii_subtotal = whole 300\<rparr>],
       invoices_seq := 1, invoice_items_seq := 2\<rparr>"

definition scenario_response :: InvoiceResponse where
  "scenario_response =
     \<lparr>r_id = 1, r_invoice_no = ''INV-001'', r_issue_date = ''2024-03-01'', r_due_date = ''2024-03-31'',
      r_client = \<lparr>cr_id = 1, cr_name = ''Acme Corporation'',
                  cr_address = ''123 Business Ave, New York, NY 10001'',
                  cr_company_registration_no = ''ACM-2024-001''\<rparr>,
      r_address = ''123 Business Ave, New York, NY 10001'',
      r_items = [\<lparr>ir_id = 1, ir_product_id = 1, ir_product_name = ''Web Development'', ir_quantity = 1,
                    ir_unit_price = whole 5000, ir_subtotal = whole 5000\<rparr>,
                 \<lparr>ir_id = 2, ir_product_id = 2, ir_product_name = ''Consulting'', ir_quantity = 2,
                    ir_unit_price = whole 150, ir_subtotal = whole 300\<rparr>],
      r_tax = whole 50, r_total = whole 5350\<rparr>"

definition late_due_request :: InvoiceCreate where
  "late_due_request = scenario_request\<lparr>issue_date := ''2024-03-10'', due_date := ''2024-03-01''\<rparr>"

definition odd_dates_request :: InvoiceCreate where
  "odd_dates_request = scenario_request\<lparr>issue_date := ''2024-99-99'', due_date := ''2024-99-99''\<rparr>"

definition missing_client_request :: InvoiceCreate where
  "missing_client_request = scenario_request\<lparr>client_id := 99\<rparr>"

definition missing_product_first_request :: InvoiceCreate where
  "missing_product_first_request = scenario_request\<lparr>items := [\<lparr>product_id = 99, quantity = 1\<rparr>]\<rparr>"

definition missing_product_second_request :: InvoiceCreate where
  "missing_product_second_request =
     scenario_request\<lparr>items := [\<lparr>product_id = 1, quantity = 1\<rparr>, \<lparr>product_id = 99, quantity = 1\<rparr>]\<rparr>"

definition zero_quantity_second_request :: InvoiceCreate where
  "zero_quantity_second_request =
     scenario_request\<lparr>items := [\<lparr>product_id = 1, quantity = 1\<rparr>, \<lparr>product_id = 2, quantity = 0\<rparr>]\<rparr>"


definition scenario_db_after_delete :: database where
  "scenario_db_after_delete = scenario_db_created\<lparr>invoices_seq := 2, invoice_items_seq := 4\<rparr>"


definition reuse_trace :: "operation list" where
  "reuse_trace = [Create scenario_request, Create scenario_request, Delete 2, Create scenario_request]"

definition empty_tables_store :: schema_store where
  "empty_tables_store =
     ledger_only_store\<lparr>products_table := Some [], clients_table := Some [],
       migrations_ledger := Some [''002_create_products_table'', ''003_create_clients_table'']\<rparr>"





definition huge_client_request :: InvoiceCreate where
  "huge_client_request = scenario_request\<lparr>client_id := 9223372036854775808\<rparr>"

definition huge_product_second_request :: InvoiceCreate where
  "huge_product_second_request =
     scenario_request\<lparr>items := [\<lparr>product_id = 1, quantity = 1\<rparr>,
                                \<lparr>product_id = 9223372036854775808, quantity = 1\<rparr>]\<rparr>"



section \<open>Decimal digits: rendering and reading back\<close>

lemma of_char_digit_char: "d < 10 \<Longrightarrow> (of_char (digit_char d) :: nat) = 48 + d"
  by (simp add: digit_char_def)

lemma is_digit_digit_char: "d < 10 \<Longrightarrow> is_digit (digit_char d)"
  by (simp add: is_digit_def of_char_digit_char)

lemma digit_val_digit_char: "d < 10 \<Longrightarrow> digit_val (digit_char d) = d"
  by (simp add: digit_val_def of_char_digit_char)

lemma is_digit_zero: "is_digit CHR ''0''" and digit_val_zero: "digit_val CHR ''0'' = 0"
  by (simp_all add: is_digit_def digit_val_def)

lemma nat_digits_all_digits: "list_all is_digit (nat_digits n)"
proof (induction n rule: nat_digits.induct)
  case (1 n)
  show ?case
  proof (cases "n < 10")
    case True
    then show ?thesis by (subst nat_digits.simps) (simp add: is_digit_digit_char)
  next
    case False
    with 1 show ?thesis by (subst nat_digits.simps) (simp add: is_digit_digit_char)
  qed
qed

lemma nat_digits_nonempty: "nat_digits n \<noteq> []"
  by (subst nat_digits.simps) simp

lemma foldl_nat_digits: "foldl (\<lambda>a c. a * 10 + digit_val c) 0 (nat_digits n) = n"
proof (induction n rule: nat_digits.induct)
  case (1 n)
  show ?case
  proof (cases "n < 10")
    case True
    then show ?thesis by (subst nat_digits.simps) (simp add: digit_val_digit_char)
  next
    case False
    with 1 show ?thesis by (subst nat_digits.simps) (simp add: digit_val_digit_char)
  qed
qed

lemma foldl_leading_zeros:
  "foldl (\<lambda>a c. a * 10 + digit_val c) 0 (replicate k CHR ''0'') = 0"
  by (induction k) (simp_all add: digit_val_zero)

lemma zfill_all_digits: "list_all is_digit (zfill w (nat_digits n))"
  using nat_digits_all_digits [of n] by (auto simp: zfill_def is_digit_zero list_all_iff)

lemma digits_value_zfill: "digits_value (zfill w (nat_digits n)) = n"
proof -
  have tw: "takeWhile is_digit (zfill w (nat_digits n)) = zfill w (nat_digits n)"
    using zfill_all_digits [of w n] by (simp add: list_all_iff)
  show ?thesis
    unfolding digits_value_def tw
    by (simp add: zfill_def foldl_leading_zeros foldl_nat_digits)
qed

lemma zfill_nonempty: "zfill w (nat_digits n) \<noteq> []"
  by (simp add: zfill_def nat_digits_nonempty)

lemma is_digit_not_space: "is_digit c \<Longrightarrow> \<not> sqlite_isspace c"
  by (auto simp: is_digit_def sqlite_isspace_def)

lemma is_digit_not_sign: "is_digit c \<Longrightarrow> c \<noteq> CHR ''-'' \<and> c \<noteq> CHR ''+''"
  by (auto simp: is_digit_def)

lemma cast_unsigned:
  assumes "list_all is_digit s" "s \<noteq> []"
  shows "sqlite_cast_integer s =
     (if int (digits_value s) > LARGEST_INT64 then LARGEST_INT64 else int (digits_value s))"
proof -
  from assms obtain c r where s: "s = c # r" and c: "is_digit c"
    by (cases s) auto
  from c have "\<not> sqlite_isspace c" "c \<noteq> CHR ''-''" "c \<noteq> CHR ''+''"
    using is_digit_not_space is_digit_not_sign by auto
  then show ?thesis
    by (simp add: sqlite_cast_integer_def s Let_def)
qed

lemma cast_format_nonneg:
  "0 \<le> n \<Longrightarrow> sqlite_cast_integer (format_03d n) = (if n > LARGEST_INT64 then LARGEST_INT64 else n)"
  using cast_unsigned [OF zfill_all_digits zfill_nonempty, of 3 "nat n"]
  by (simp add: format_03d_def digits_value_zfill)

lemma cast_signed:
  assumes "list_all is_digit s"
  shows "sqlite_cast_integer (CHR ''-'' # s) =
     (if int (digits_value s) > LARGEST_INT64 then SMALLEST_INT64 else - int (digits_value s))"
  by (simp add: sqlite_cast_integer_def Let_def sqlite_isspace_def)

lemma cast_format_neg:
  "n < 0 \<Longrightarrow> sqlite_cast_integer (format_03d n) = (if - n > LARGEST_INT64 then SMALLEST_INT64 else n)"
  using cast_signed [OF zfill_all_digits, of 2 "nat (- n)"]
  by (simp add: format_03d_def digits_value_zfill)

lemma invoice_suffix_format:
  "invoice_suffix (''INV-'' @ format_03d n) =
     (if n > LARGEST_INT64 then LARGEST_INT64 else if n < - LARGEST_INT64 then SMALLEST_INT64 else n)"
  by (cases "n < 0") (simp_all add: invoice_suffix_def sql_substr_from5_def cast_format_neg cast_format_nonneg LARGEST_INT64_def)

subsection \<open>The numeral reading agrees with the store's cast\<close>















section \<open>The next invoice number\<close>

lemma foldl_max_Max: "foldl max (x::int) xs = Max (set (x # xs))"
proof (induction xs arbitrary: x)
  case Nil
  then show ?case by simp
next
  case (Cons y ys)
  have "foldl max x (y # ys) = Max (set (max x y # ys))"
    using Cons.IH [of "max x y"] by simp
  also have "\<dots> = Max (set (x # y # ys))"
    by (cases ys) (simp_all add: max.assoc)
  finally show ?case .
qed

lemma sql_max_Max:
  "xs \<noteq> [] \<Longrightarrow> sql_max xs = Some (Max (set xs))"
  by (cases xs) (simp_all add: sql_max_def foldl_max_Max)

lemma max_num_eq:
  "sql_coalesce (sql_max (map f rows)) 0 = (if rows = [] then 0 else Max (set (map f rows)))"
  by (cases rows) (simp_all add: sql_max_def sql_coalesce_def foldl_max_Max)

lemma next_number: "get_next_invoice_number conn =
     ''INV-'' @ format_03d (if invoices conn = [] then 1
        else Max (set (map (\<lambda>r. invoice_suffix (i_invoice_no r)) (invoices conn))) + 1)"
  by (simp add: get_next_invoice_number_def max_num_eq Let_def)

lemma cast_ge: "SMALLEST_INT64 \<le> sqlite_cast_integer s"
  by (simp add: sqlite_cast_integer_def Let_def SMALLEST_INT64_def LARGEST_INT64_def)

lemma suffix_999: "invoice_suffix ''INV-999'' = 999"
  by (simp add: invoice_suffix_def sql_substr_from5_def sqlite_cast_integer_def sqlite_isspace_def digits_value_def is_digit_def digit_val_def LARGEST_INT64_def)

lemma fmt1000: "format_03d 1000 = ''1000''"
  by code_simp


lemma next_suffix_greater:
  assumes "\<forall>r\<in>set (invoices conn). invoice_suffix (i_invoice_no r) < LARGEST_INT64"
  shows "\<forall>r\<in>set (invoices conn). invoice_suffix (i_invoice_no r) < invoice_suffix (get_next_invoice_number conn)"
proof (cases "invoices conn = []")
  case True
  then show ?thesis by simp
next
  case False
  let ?S = "set (map (\<lambda>r. invoice_suffix (i_invoice_no r)) (invoices conn))"
  let ?m = "Max ?S"
  have fin: "finite ?S" and ne: "?S \<noteq> {}" using False by auto
  have "?m \<in> ?S" using Max_in [OF fin ne] .
  then have m_lt: "?m < LARGEST_INT64" and m_ge: "SMALLEST_INT64 \<le> ?m"
    using assms by (auto simp: invoice_suffix_def cast_ge)
  have "invoice_suffix (get_next_invoice_number conn) = invoice_suffix (''INV-'' @ format_03d (?m + 1))"
    using False by (simp add: next_number del: set_map)
  also have "\<dots> = ?m + 1"
    unfolding invoice_suffix_format using m_lt m_ge
    by (simp add: LARGEST_INT64_def SMALLEST_INT64_def del: set_map)
  finally have "invoice_suffix (get_next_invoice_number conn) = ?m + 1" .
  moreover have "\<forall>r\<in>set (invoices conn). invoice_suffix (i_invoice_no r) \<le> ?m"
    using fin by (auto intro: Max_ge)
  ultimately show ?thesis by (simp del: set_map)
qed

lemma suffix_998: "invoice_suffix ''INV-998'' = 998"
  by (simp add: invoice_suffix_def sql_substr_from5_def sqlite_cast_integer_def sqlite_isspace_def
      digits_value_def is_digit_def digit_val_def LARGEST_INT64_def)

lemma fmt1: "format_03d 1 = ''001''"
  by code_simp

lemma next_scenario: "get_next_invoice_number scenario_db = ''INV-001''"
  by (simp add: next_number scenario_db_def fmt1)

lemma next_after_999: "get_next_invoice_number db_past_999 = ''INV-1000''"
  by (simp add: next_number db_past_999_def scenario_db_def invoice_numbered_def suffix_998 suffix_999 fmt1000)

lemma digits_value_format:
  "0 \<le> n \<Longrightarrow> digits_value (format_03d n) = nat n"
  by (simp add: format_03d_def digits_value_zfill)
















text \<open>
  C10, as amended: for every integer n from 1 up to the largest 64-bit integer, formatting n
  as \<open>INV-\<close> followed by n padded to at least three digits and reading the suffix back gives n,
  also for n from 1000 on; the formatting is injective on all integers from 1 on; and on a
  table whose suffixes are all below the largest 64-bit integer the next number's suffix is
  above every stored suffix.
\<close>

theorem invoice_number_roundtrip_int64:
  "(1 \<le> n \<and> n \<le> LARGEST_INT64 \<longrightarrow> invoice_suffix (''INV-'' @ format_03d n) = n)
   \<and> (1 \<le> n \<and> 1 \<le> m \<and> ''INV-'' @ format_03d n = ''INV-'' @ format_03d m \<longrightarrow> n = m)
   \<and> ((\<forall>r\<in>set (invoices conn). invoice_suffix (i_invoice_no r) < LARGEST_INT64) \<longrightarrow>
        (\<forall>r\<in>set (invoices conn). invoice_suffix (i_invoice_no r) < invoice_suffix (get_next_invoice_number conn)))"
proof (intro conjI impI)
  assume "1 \<le> n \<and> n \<le> LARGEST_INT64"
  then show "invoice_suffix (''INV-'' @ format_03d n) = n"
    unfolding invoice_suffix_format by (simp add: LARGEST_INT64_def)
next
  assume a: "1 \<le> n \<and> 1 \<le> m \<and> ''INV-'' @ format_03d n = ''INV-'' @ format_03d m"
  have dn: "digits_value (format_03d n) = nat n"
    using a by (intro digits_value_format) simp
  have dm: "digits_value (format_03d m) = nat m"
    using a by (intro digits_value_format) simp
  from a have "format_03d n = format_03d m" by simp
  with dn dm have "nat n = nat m" by simp
  moreover from a have "0 \<le> n" "0 \<le> m" by simp_all
  ultimately show "n = m" by arith
next
  assume "\<forall>r\<in>set (invoices conn). invoice_suffix (i_invoice_no r) < LARGEST_INT64"
  then show "\<forall>r\<in>set (invoices conn). invoice_suffix (i_invoice_no r) < invoice_suffix (get_next_invoice_number conn)"
    by (rule next_suffix_greater)
qed

theorem invoice_number_roundtrip_int64_witness:
  "invoice_suffix (''INV-'' @ format_03d 1000) = 1000
   \<and> format_03d 1000 = ''1000''
   \<and> invoice_suffix ''INV-999'' < invoice_suffix (get_next_invoice_number db_past_999)"
  using invoice_number_roundtrip_int64 [of 1000 1000 db_past_999]
  by (simp add: LARGEST_INT64_def fmt1000 db_past_999_def scenario_db_def invoice_numbered_def
      suffix_998 suffix_999)

theorem invoice_number_roundtrip_counterexample:
  "invoice_suffix (''INV-'' @ format_03d 9223372036854775808) = 9223372036854775807
   \<and> invoice_suffix (''INV-'' @ format_03d 9223372036854775808) \<noteq> 9223372036854775808"
  unfolding invoice_suffix_format by (simp add: LARGEST_INT64_def)

section \<open>Validation\<close>

lemmas request_defs = scenario_request_def late_due_request_def odd_dates_request_def
  missing_client_request_def missing_product_first_request_def missing_product_second_request_def
  zero_quantity_second_request_def

lemma py_str_99: "py_str 99 = ''99''" by code_simp
lemma py_str_2: "py_str 2 = ''2''" by code_simp

lemma length_py_split: "length (py_split sep s) = count_list s sep + 1"
  by (induction s) (auto split: list.splits)

lemma py_str_less_lexord:
  "py_str_less a b = ((a, b) \<in> lexord {(x, y). (of_char x :: nat) < of_char y})"
  by (induction a b rule: py_str_less.induct) auto

lemma fetchone_None: "(fetchone rows = None) = (rows = [])"
  by (cases rows) (simp_all add: fetchone_def)

lemma create_invalid:
  "validate_invoice_input conn invoice = Inl e \<Longrightarrow> create_invoice conn invoice = (Inl (except_clauses e), conn)"
  by (simp add: create_invoice_def get_db_def create_invoice_block_def route_def)

lemma validate_items_not_dates:
  "validate_items conn idx its \<noteq> Inl (HTTPException 400 ''Dates must be in format YYYY-MM-DD'')"
  by (induction its arbitrary: idx) (auto simp: int_too_large_def)

lemma validate_items_not_due:
  "validate_items conn idx its \<noteq> Inl (HTTPException 400 ''Due date must be after or equal to issue date'')"
  by (induction its arbitrary: idx) (auto simp: int_too_large_def)

lemma dates_error_iff:
  "(validate_invoice_input conn invoice = Inl (HTTPException 400 ''Dates must be in format YYYY-MM-DD''))
     = (\<not> (length (py_split CHR ''-'' (issue_date invoice)) = 3 \<and> length (py_split CHR ''-'' (due_date invoice)) = 3))"
  by (auto simp: validate_invoice_input_def Let_def validate_items_not_dates int_too_large_def)

lemma due_error_iff:
  "length (py_split CHR ''-'' (issue_date invoice)) = 3 \<Longrightarrow> length (py_split CHR ''-'' (due_date invoice)) = 3 \<Longrightarrow>
   (validate_invoice_input conn invoice = Inl (HTTPException 400 ''Due date must be after or equal to issue date''))
     = py_str_less (due_date invoice) (issue_date invoice)"
  by (auto simp: validate_invoice_input_def Let_def validate_items_not_due int_too_large_def)

lemma odd_ok: "validate_invoice_input scenario_db odd_dates_request = Inr ()"
  by code_simp

lemma late_rejected: "validate_invoice_input scenario_db late_due_request = Inl (HTTPException 400 ''Due date must be after or equal to issue date'')"
  by code_simp

lemma scenario_valid: "validate_invoice_input scenario_db scenario_request = Inr ()"
  by code_simp

lemma split_odd_date: "py_split CHR ''-'' ''2024-99-99'' = [''2024'', ''99'', ''99'']"
  by simp

text \<open>
  C6: the date check is purely syntactic. The request fails it exactly when the issue date or
  the due date does not split on \<open>-\<close> into three components, that is, does not hold exactly
  two \<open>-\<close>; nothing about the calendar is checked, and a request dated \<open>2024-99-99\<close> passes
  validation.
\<close>

theorem date_check_is_syntactic:
  "((validate_invoice_input conn invoice = Inl (HTTPException 400 ''Dates must be in format YYYY-MM-DD''))
      = (\<not> (length (py_split CHR ''-'' (issue_date invoice)) = 3 \<and> length (py_split CHR ''-'' (due_date invoice)) = 3)))
   \<and> ((length (py_split CHR ''-'' s) = 3) = (count_list s CHR ''-'' = 2))
   \<and> py_split CHR ''-'' ''2024-99-99'' = [''2024'', ''99'', ''99'']
   \<and> validate_invoice_input scenario_db odd_dates_request = Inr ()"
  using dates_error_iff [of conn invoice] length_py_split [of "CHR ''-''" s] split_odd_date odd_ok
  by simp

theorem date_check_is_syntactic_witness:
  "validate_invoice_input scenario_db (scenario_request\<lparr>issue_date := ''2024/03/01''\<rparr>)
     = Inl (HTTPException 400 ''Dates must be in format YYYY-MM-DD'')
   \<and> validate_invoice_input scenario_db odd_dates_request
     \<noteq> Inl (HTTPException 400 ''Dates must be in format YYYY-MM-DD'')
   \<and> count_list ''2024-99-99'' CHR ''-'' = 2"
proof -
  have bad: "\<not> (length (py_split CHR ''-'' (issue_date (scenario_request\<lparr>issue_date := ''2024/03/01''\<rparr>))) = 3
      \<and> length (py_split CHR ''-'' (due_date (scenario_request\<lparr>issue_date := ''2024/03/01''\<rparr>))) = 3)"
    by simp
  have good: "length (py_split CHR ''-'' (issue_date odd_dates_request)) = 3
      \<and> length (py_split CHR ''-'' (due_date odd_dates_request)) = 3"
    by (simp add: request_defs)
  have three: "length (py_split CHR ''-'' ''2024-99-99'') = 3"
    by simp
  from date_check_is_syntactic [of scenario_db "scenario_request\<lparr>issue_date := ''2024/03/01''\<rparr>" "''2024-99-99''"] bad
  have a: "validate_invoice_input scenario_db (scenario_request\<lparr>issue_date := ''2024/03/01''\<rparr>)
     = Inl (HTTPException 400 ''Dates must be in format YYYY-MM-DD'')"
    by blast
  from date_check_is_syntactic [of scenario_db odd_dates_request "''2024-99-99''"] good
  have b: "validate_invoice_input scenario_db odd_dates_request
     \<noteq> Inl (HTTPException 400 ''Dates must be in format YYYY-MM-DD'')"
    by blast
  from date_check_is_syntactic [of scenario_db odd_dates_request "''2024-99-99''"] three
  have c: "count_list ''2024-99-99'' CHR ''-'' = 2"
    by blast
  show ?thesis using a b c by blast
qed

text \<open>
  C7: when both dates pass the shape check, the request is rejected with the 400 error of
  the date order exactly when the due date is less than the issue date as a string (and
  \<open>create_invoice\<close> then returns that error and leaves the store alone); the comparison is the
  lexicographic order of the characters' code points.
\<close>

theorem due_date_check_string_order:
  "(length (py_split CHR ''-'' (issue_date invoice)) = 3 \<and> length (py_split CHR ''-'' (due_date invoice)) = 3 \<longrightarrow>
      ((validate_invoice_input conn invoice = Inl (HTTPException 400 ''Due date must be after or equal to issue date''))
         = py_str_less (due_date invoice) (issue_date invoice))
      \<and> (py_str_less (due_date invoice) (issue_date invoice) \<longrightarrow>
           create_invoice conn invoice = (Inl (HTTPException 400 ''Due date must be after or equal to issue date''), conn)))
   \<and> py_str_less a b = ((a, b) \<in> lexord {(x, y). (of_char x :: nat) < of_char y})"
proof (intro conjI impI)
  assume shape: "length (py_split CHR ''-'' (issue_date invoice)) = 3 \<and> length (py_split CHR ''-'' (due_date invoice)) = 3"
  then show iff: "(validate_invoice_input conn invoice = Inl (HTTPException 400 ''Due date must be after or equal to issue date''))
         = py_str_less (due_date invoice) (issue_date invoice)"
    by (simp add: due_error_iff)
  assume "py_str_less (due_date invoice) (issue_date invoice)"
  with iff have "validate_invoice_input conn invoice = Inl (HTTPException 400 ''Due date must be after or equal to issue date'')"
    by simp
  then show "create_invoice conn invoice = (Inl (HTTPException 400 ''Due date must be after or equal to issue date''), conn)"
    by (simp add: create_invalid)
next
  show "py_str_less a b = ((a, b) \<in> lexord {(x, y). (of_char x :: nat) < of_char y})"
    by (rule py_str_less_lexord)
qed

theorem due_date_check_string_order_witness:
  "py_str_less ''2024-03-01'' ''2024-03-10''
   \<and> create_invoice scenario_db late_due_request
        = (Inl (HTTPException 400 ''Due date must be after or equal to issue date''), scenario_db)
   \<and> \<not> py_str_less ''2024-03-31'' ''2024-03-01''
   \<and> validate_invoice_input scenario_db scenario_request
        \<noteq> Inl (HTTPException 400 ''Due date must be after or equal to issue date'')"
proof -
  have shape: "length (py_split CHR ''-'' (issue_date late_due_request)) = 3
      \<and> length (py_split CHR ''-'' (due_date late_due_request)) = 3"
    and less: "py_str_less (due_date late_due_request) (issue_date late_due_request)"
    and l: "py_str_less ''2024-03-01'' ''2024-03-10''"
    by (simp_all add: request_defs)
  have shape': "length (py_split CHR ''-'' (issue_date scenario_request)) = 3
      \<and> length (py_split CHR ''-'' (due_date scenario_request)) = 3"
    and nless: "\<not> py_str_less (due_date scenario_request) (issue_date scenario_request)"
    and nl: "\<not> py_str_less ''2024-03-31'' ''2024-03-01''"
    by (simp_all add: request_defs)
  from due_date_check_string_order [of late_due_request scenario_db] shape less
  have a: "create_invoice scenario_db late_due_request
        = (Inl (HTTPException 400 ''Due date must be after or equal to issue date''), scenario_db)"
    by blast
  from due_date_check_string_order [of scenario_request scenario_db] shape' nless
  have b: "validate_invoice_input scenario_db scenario_request
        \<noteq> Inl (HTTPException 400 ''Due date must be after or equal to issue date'')"
    by blast
  show ?thesis using l a nl b by blast
qed

section \<open>Rejected requests leave the store alone\<close>

lemma validate_items_missing_product:
  "\<exists>item\<in>set its. select_product conn (product_id item) = [] \<Longrightarrow> \<exists>e. validate_items conn idx its = Inl e"
  by (induction its arbitrary: idx) (auto simp: fetchone_None)

lemma validate_missing_client:
  "select_client conn (client_id invoice) = [] \<Longrightarrow> \<exists>e. validate_invoice_input conn invoice = Inl e"
  by (simp add: validate_invoice_input_def Let_def fetchone_None)

lemma validate_missing_product:
  "\<exists>item\<in>set (items invoice). select_product conn (product_id item) = [] \<Longrightarrow>
   \<exists>e. validate_invoice_input conn invoice = Inl e"
  using validate_items_missing_product [of "items invoice" conn 0]
  by (simp add: validate_invoice_input_def Let_def)

lemma validate_items_errors:
  "validate_items conn idx its = Inl e \<Longrightarrow>
   (\<exists>d. e = HTTPException 400 d) \<or> (e = int_too_large \<and> (\<exists>item\<in>set its. \<not> sqlite_int (product_id item)))"
  by (induction its arbitrary: idx) (auto split: if_splits)

lemma validate_errors:
  "validate_invoice_input conn invoice = Inl e \<Longrightarrow>
   (\<exists>d. e = HTTPException 400 d)
   \<or> (e = int_too_large
       \<and> (\<not> sqlite_int (client_id invoice) \<or> (\<exists>item\<in>set (items invoice). \<not> sqlite_int (product_id item))))"
  using validate_items_errors [of conn 0 "items invoice" e]
  by (auto simp: validate_invoice_input_def Let_def split: if_splits)

lemma except_clauses_int_too_large:
  "except_clauses int_too_large
     = HTTPException 500 ''Database error: Python int too large to convert to SQLite INTEGER''"
  by (simp add: int_too_large_def database_error_def)

lemma create_error_unchanged:
  "fst (create_invoice conn invoice) = Inl e \<Longrightarrow> snd (create_invoice conn invoice) = conn"
  by (cases "create_invoice_block invoice conn")
     (auto simp: create_invoice_def get_db_def route_def split: prod.splits)

text \<open>
  C4, as amended: a create request that fails validation leaves the store as it was, with
  no invoice row and no item row inserted, as does every create request answered with an
  error. The answer is the 400 error of the failed check, except when the client id or a
  product id that validation looks up lies outside the signed 64-bit range: binding it to
  the lookup raises an OverflowError, and the answer is a 500 error. In particular a request
  whose ids are all within that range gets a 400 error when its client id matches no client
  row or one of its product ids matches no product row.
\<close>

theorem create_invoice_validation_failure:
  "(validate_invoice_input conn invoice = Inl (HTTPException s d) \<longrightarrow>
      s = 400 \<and> create_invoice conn invoice = (Inl (HTTPException 400 d), conn))
   \<and> (validate_invoice_input conn invoice = Inl e \<longrightarrow>
        (\<exists>d'. e = HTTPException 400 d')
        \<or> (e = int_too_large
            \<and> (\<not> sqlite_int (client_id invoice) \<or> (\<exists>item\<in>set (items invoice). \<not> sqlite_int (product_id item)))
            \<and> create_invoice conn invoice
                 = (Inl (HTTPException 500 ''Database error: Python int too large to convert to SQLite INTEGER''), conn)))
   \<and> (sqlite_int (client_id invoice) \<and> list_all (\<lambda>item. sqlite_int (product_id item)) (items invoice)
        \<and> (select_client conn (client_id invoice) = [] \<or>
             (\<exists>item\<in>set (items invoice). select_product conn (product_id item) = [])) \<longrightarrow>
      (\<exists>d'. create_invoice conn invoice = (Inl (HTTPException 400 d'), conn)))
   \<and> (fst (create_invoice conn invoice) = Inl e' \<longrightarrow> snd (create_invoice conn invoice) = conn)"
proof (intro conjI impI)
  assume v: "validate_invoice_input conn invoice = Inl (HTTPException s d)"
  from validate_errors [OF v] show s: "s = 400" by (auto simp: int_too_large_def)
  from create_invalid [OF v] s show "create_invoice conn invoice = (Inl (HTTPException 400 d), conn)"
    by simp
next
  assume v: "validate_invoice_input conn invoice = Inl e"
  from validate_errors [OF v] create_invalid [OF v]
  show "(\<exists>d'. e = HTTPException 400 d')
        \<or> (e = int_too_large
            \<and> (\<not> sqlite_int (client_id invoice) \<or> (\<exists>item\<in>set (items invoice). \<not> sqlite_int (product_id item)))
            \<and> create_invoice conn invoice
                 = (Inl (HTTPException 500 ''Database error: Python int too large to convert to SQLite INTEGER''), conn))"
    by (auto simp: except_clauses_int_too_large)
next
  assume a: "sqlite_int (client_id invoice) \<and> list_all (\<lambda>item. sqlite_int (product_id item)) (items invoice)
        \<and> (select_client conn (client_id invoice) = [] \<or>
             (\<exists>item\<in>set (items invoice). select_product conn (product_id item) = []))"
  then obtain e0 where v: "validate_invoice_input conn invoice = Inl e0"
    using validate_missing_client validate_missing_product by blast
  from validate_errors [OF v] a obtain d' where "e0 = HTTPException 400 d'"
    by (auto simp: list_all_iff)
  with create_invalid [OF v] have "create_invoice conn invoice = (Inl (HTTPException 400 d'), conn)"
    by simp
  then show "\<exists>d'. create_invoice conn invoice = (Inl (HTTPException 400 d'), conn)" ..
next
  assume "fst (create_invoice conn invoice) = Inl e'"
  then show "snd (create_invoice conn invoice) = conn" by (rule create_error_unchanged)
qed

lemma missing_client_rejected:
  "validate_invoice_input scenario_db missing_client_request = Inl (HTTPException 400 ''Client 99 not found'')"
  by code_simp

lemma missing_product_second_rejected:
  "validate_invoice_input scenario_db missing_product_second_request = Inl (HTTPException 400 ''Product 99 not found'')"
  by code_simp

lemma missing_product_first_rejected:
  "validate_invoice_input scenario_db missing_product_first_request = Inl (HTTPException 400 ''Product 99 not found'')"
  by code_simp

lemma huge_product_second_rejected:
  "validate_invoice_input scenario_db huge_product_second_request = Inl int_too_large"
  by code_simp

theorem create_invoice_validation_failure_witness:
  "create_invoice scenario_db missing_client_request = (Inl (HTTPException 400 ''Client 99 not found''), scenario_db)
   \<and> create_invoice scenario_db missing_product_second_request = (Inl (HTTPException 400 ''Product 99 not found''), scenario_db)
   \<and> create_invoice scenario_db huge_product_second_request
        = (Inl (HTTPException 500 ''Database error: Python int too large to convert to SQLite INTEGER''), scenario_db)
   \<and> invoices scenario_db = [] \<and> invoice_items scenario_db = []"
proof -
  from create_invoice_validation_failure [of scenario_db missing_client_request 400 "''Client 99 not found''"]
    missing_client_rejected
  have a: "create_invoice scenario_db missing_client_request = (Inl (HTTPException 400 ''Client 99 not found''), scenario_db)"
    by blast
  from create_invoice_validation_failure [of scenario_db missing_product_second_request 400 "''Product 99 not found''"]
    missing_product_second_rejected
  have b: "create_invoice scenario_db missing_product_second_request = (Inl (HTTPException 400 ''Product 99 not found''), scenario_db)"
    by blast
  have n: "\<not> (\<exists>d'. int_too_large = HTTPException 400 d')"
    by (simp add: int_too_large_def)
  from create_invoice_validation_failure [of scenario_db huge_product_second_request _ _ int_too_large]
    huge_product_second_rejected n
  have c: "create_invoice scenario_db huge_product_second_request
        = (Inl (HTTPException 500 ''Database error: Python int too large to convert to SQLite INTEGER''), scenario_db)"
    by blast
  have e: "invoices scenario_db = [] \<and> invoice_items scenario_db = []"
    by (simp add: scenario_db_def)
  show ?thesis using a b c e by blast
qed

lemma huge_client_answer:
  "create_invoice scenario_db huge_client_request
     = (Inl (HTTPException 500 ''Database error: Python int too large to convert to SQLite INTEGER''), scenario_db)"
  by code_simp

lemma huge_client_missing: "select_client scenario_db (client_id huge_client_request) = []"
  by code_simp

theorem create_invoice_validation_failure_counterexample:
  "select_client scenario_db (client_id huge_client_request) = []
   \<and> validate_invoice_input scenario_db huge_client_request = Inl int_too_large
   \<and> create_invoice scenario_db huge_client_request
        = (Inl (HTTPException 500 ''Database error: Python int too large to convert to SQLite INTEGER''), scenario_db)"
proof -
  have "validate_invoice_input scenario_db huge_client_request = Inl int_too_large"
    by code_simp
  with huge_client_missing huge_client_answer show ?thesis by blast
qed

section \<open>Deleting an invoice\<close>

lemma get_invoice_absent:
  assumes "sqlite_int invoice_id" and "invoice_id \<notin> set (map i_id (invoices conn))"
  shows "get_invoice conn invoice_id = Inl (HTTPException 404 ''Invoice not found'')"
proof -
  from assms(2) have "filter (\<lambda>i. i_id i = invoice_id) (invoices conn) = []"
    by (auto simp: filter_empty_conv)
  with assms(1) show ?thesis
    by (simp add: get_invoice_def get_invoice_block_def get_db_def route_def
        select_invoice_with_client_def fetchone_def)
qed

lemma delete_invoice_present:
  assumes "sqlite_int invoice_id" and "invoice_id \<in> set (map i_id (invoices conn))"
  shows "delete_invoice conn invoice_id
     = (Inr (), delete_invoice_row invoice_id (delete_invoice_items invoice_id conn))"
proof -
  from assms(2) have "filter (\<lambda>i. i_id i = invoice_id) (invoices conn) \<noteq> []"
    by (auto simp: filter_empty_conv)
  with assms(1) show ?thesis
    by (simp add: delete_invoice_def delete_invoice_block_def get_db_def route_def fetchone_None)
qed

lemma delete_invoice_absent:
  assumes "sqlite_int invoice_id" and "invoice_id \<notin> set (map i_id (invoices conn))"
  shows "delete_invoice conn invoice_id = (Inl (HTTPException 404 ''Invoice not found''), conn)"
proof -
  from assms(2) have "filter (\<lambda>i. i_id i = invoice_id) (invoices conn) = []"
    by (auto simp: filter_empty_conv)
  with assms(1) show ?thesis
    by (simp add: delete_invoice_def delete_invoice_block_def get_db_def route_def fetchone_None)
qed

lemma delete_invoice_out_of_range:
  "\<not> sqlite_int invoice_id \<Longrightarrow>
   delete_invoice conn invoice_id
     = (Inl (HTTPException 500 ''Database error: Python int too large to convert to SQLite INTEGER''), conn)"
  by (simp add: delete_invoice_def delete_invoice_block_def get_db_def route_def
      except_clauses_int_too_large)

lemma delete_items_keeps_references:
  "items_reference_invoices conn \<Longrightarrow> items_reference_invoices (delete_invoice_items invoice_id conn)"
  by (auto simp: items_reference_invoices_def delete_invoice_items_def list_all_iff)

lemma delete_row_after_items_keeps_references:
  "items_reference_invoices conn \<Longrightarrow>
   items_reference_invoices (delete_invoice_row invoice_id (delete_invoice_items invoice_id conn))"
  by (auto simp: items_reference_invoices_def delete_invoice_items_def delete_invoice_row_def list_all_iff)

text \<open>
  C8, as amended: \<open>delete_invoice\<close> on the id of a stored invoice removes the item rows of
  that invoice and then the invoice row: the invoice row is still there when the items go,
  so that every item row refers to a stored invoice after each of the two statements when
  that held before. Afterwards \<open>get_invoice\<close> for that id returns the 404 error and no item
  row refers to the id. On an id within the signed 64-bit range with no invoice row
  \<open>delete_invoice\<close> returns the 404 error and changes nothing; on an id outside that range
  (which no row has) the existence check raises an OverflowError when the id is bound, and
  the answer is a 500 error, with nothing changed.
\<close>

theorem delete_invoice_removes_items_then_row:
  "(sqlite_int invoice_id \<and> invoice_id \<in> set (map i_id (invoices conn)) \<longrightarrow>
      delete_invoice conn invoice_id = (Inr (), delete_invoice_row invoice_id (delete_invoice_items invoice_id conn))
      \<and> invoices (delete_invoice_items invoice_id conn) = invoices conn
      \<and> (items_reference_invoices conn \<longrightarrow>
            items_reference_invoices (delete_invoice_items invoice_id conn)
            \<and> items_reference_invoices (snd (delete_invoice conn invoice_id)))
      \<and> get_invoice (snd (delete_invoice conn invoice_id)) invoice_id = Inl (HTTPException 404 ''Invoice not found'')
      \<and> filter (\<lambda>ii. ii_invoice_id ii = invoice_id) (invoice_items (snd (delete_invoice conn invoice_id))) = []
      \<and> invoice_id \<notin> set (map i_id (invoices (snd (delete_invoice conn invoice_id)))))
   \<and> (sqlite_int invoice_id \<and> invoice_id \<notin> set (map i_id (invoices conn)) \<longrightarrow>
      delete_invoice conn invoice_id = (Inl (HTTPException 404 ''Invoice not found''), conn))
   \<and> (\<not> sqlite_int invoice_id \<longrightarrow>
      delete_invoice conn invoice_id
        = (Inl (HTTPException 500 ''Database error: Python int too large to convert to SQLite INTEGER''), conn))"
proof (intro conjI impI)
  assume ex: "sqlite_int invoice_id \<and> invoice_id \<in> set (map i_id (invoices conn))"
  then show d: "delete_invoice conn invoice_id = (Inr (), delete_invoice_row invoice_id (delete_invoice_items invoice_id conn))"
    by (simp add: delete_invoice_present)
  show "invoices (delete_invoice_items invoice_id conn) = invoices conn"
    by (simp add: delete_invoice_items_def)
  have gone: "invoice_id \<notin> set (map i_id (invoices (snd (delete_invoice conn invoice_id))))"
    by (auto simp: d delete_invoice_row_def delete_invoice_items_def)
  with ex show "get_invoice (snd (delete_invoice conn invoice_id)) invoice_id = Inl (HTTPException 404 ''Invoice not found'')"
    by (simp add: get_invoice_absent)
  show "filter (\<lambda>ii. ii_invoice_id ii = invoice_id) (invoice_items (snd (delete_invoice conn invoice_id))) = []"
    by (simp add: d delete_invoice_row_def delete_invoice_items_def filter_empty_conv)
  from gone show "invoice_id \<notin> set (map i_id (invoices (snd (delete_invoice conn invoice_id))))" .
  assume fk: "items_reference_invoices conn"
  then show "items_reference_invoices (delete_invoice_items invoice_id conn)"
    by (rule delete_items_keeps_references)
  from fk show "items_reference_invoices (snd (delete_invoice conn invoice_id))"
    by (simp add: d delete_row_after_items_keeps_references)
next
  assume "sqlite_int invoice_id \<and> invoice_id \<notin> set (map i_id (invoices conn))"
  then show "delete_invoice conn invoice_id = (Inl (HTTPException 404 ''Invoice not found''), conn)"
    by (simp add: delete_invoice_absent)
next
  assume "\<not> sqlite_int invoice_id"
  then show "delete_invoice conn invoice_id
        = (Inl (HTTPException 500 ''Database error: Python int too large to convert to SQLite INTEGER''), conn)"
    by (rule delete_invoice_out_of_range)
qed

lemma get_created: "get_invoice scenario_db_created 1 = Inr scenario_response"
  by code_simp

lemma delete_created:
  "delete_invoice scenario_db_created 1 = (Inr (), scenario_db\<lparr>invoices_seq := 1, invoice_items_seq := 2\<rparr>)"
  by code_simp

lemma row_first_breaks_references:
  "\<not> items_reference_invoices (delete_invoice_row 1 scenario_db_created)"
  by code_simp

theorem delete_invoice_removes_items_then_row_witness:
  "get_invoice scenario_db_created 1 = Inr scenario_response
   \<and> items_reference_invoices scenario_db_created
   \<and> delete_invoice scenario_db_created 1 = (Inr (), scenario_db\<lparr>invoices_seq := 1, invoice_items_seq := 2\<rparr>)
   \<and> items_reference_invoices (delete_invoice_items 1 scenario_db_created)
   \<and> \<not> items_reference_invoices (delete_invoice_row 1 scenario_db_created)
   \<and> get_invoice (snd (delete_invoice scenario_db_created 1)) 1 = Inl (HTTPException 404 ''Invoice not found'')
   \<and> delete_invoice scenario_db_created 7 = (Inl (HTTPException 404 ''Invoice not found''), scenario_db_created)
   \<and> delete_invoice scenario_db_created (- 9223372036854775809)
        = (Inl (HTTPException 500 ''Database error: Python int too large to convert to SQLite INTEGER''),
           scenario_db_created)"
proof -
  have ex: "sqlite_int 1 \<and> 1 \<in> set (map i_id (invoices scenario_db_created))"
    and nex: "sqlite_int 7 \<and> 7 \<notin> set (map i_id (invoices scenario_db_created))"
    and out: "\<not> sqlite_int (- 9223372036854775809)"
    by (simp_all add: scenario_db_created_def scenario_db_def sqlite_int_def SMALLEST_INT64_def LARGEST_INT64_def)
  have fk: "items_reference_invoices scenario_db_created"
    by code_simp
  from delete_invoice_removes_items_then_row [of 1 scenario_db_created] ex
  have a: "get_invoice (snd (delete_invoice scenario_db_created 1)) 1 = Inl (HTTPException 404 ''Invoice not found'')"
    by blast
  from delete_invoice_removes_items_then_row [of 1 scenario_db_created] ex fk
  have f: "items_reference_invoices (delete_invoice_items 1 scenario_db_created)"
    by blast
  from delete_invoice_removes_items_then_row [of 7 scenario_db_created] nex
  have b: "delete_invoice scenario_db_created 7 = (Inl (HTTPException 404 ''Invoice not found''), scenario_db_created)"
    by blast
  from delete_invoice_removes_items_then_row [of "- 9223372036854775809" scenario_db_created] out
  have c: "delete_invoice scenario_db_created (- 9223372036854775809)
        = (Inl (HTTPException 500 ''Database error: Python int too large to convert to SQLite INTEGER''),
           scenario_db_created)"
    by blast
  show ?thesis
    using get_created fk delete_created f row_first_breaks_references a b c by blast
qed

theorem delete_invoice_absent_id_counterexample:
  "9223372036854775808 \<notin> set (map i_id (invoices scenario_db_created))
   \<and> delete_invoice scenario_db_created 9223372036854775808
        = (Inl (HTTPException 500 ''Database error: Python int too large to convert to SQLite INTEGER''),
           scenario_db_created)
   \<and> get_invoice scenario_db_created 9223372036854775808
        = Inl (HTTPException 500 ''Database error: Python int too large to convert to SQLite INTEGER'')"
  by code_simp

section \<open>The order of the validation checks\<close>

lemma first_failure_Cons:
  "first_failure (c # cs) = (if fst c then first_failure cs else Inl (snd c))"
  by (simp add: first_failure_def)

lemma first_failure_Nil: "first_failure [] = Inr ()"
  by (simp add: first_failure_def)

lemma validate_items_checks:
  "validate_items conn idx its = first_failure (items_checks conn (Suc idx) its)"
proof (induction its arbitrary: idx)
  case Nil
  then show ?case by (simp add: first_failure_Nil)
next
  case (Cons item rest)
  then show ?case
    by (simp add: item_checks_def first_failure_Cons fetchone_None add.commute [of "int idx" 1])
qed

lemma validate_ordered_checks:
  "validate_invoice_input conn invoice = first_failure (ordered_checks conn invoice)"
  by (simp add: validate_invoice_input_def ordered_checks_def fixed_checks_def first_failure_Cons
      validate_items_checks fetchone_None Let_def)

lemma reasons_distinct:
  "distinct [''Dates must be in format YYYY-MM-DD'', ''Due date must be after or equal to issue date'',
     ''Client '' @ py_str c @ '' not found'', ''Invoice must have at least one item'',
     ''Tax cannot be negative'', ''Item '' @ py_str k @ '': Quantity must be greater than 0'',
     ''Product '' @ py_str p @ '' not found'']"
  by simp

lemma validate_items_ok_item:
  "item_ok conn item \<Longrightarrow> validate_items conn idx (item # rest) = validate_items conn (Suc idx) rest"
  by (simp add: item_ok_def fetchone_None)

lemma validate_items_bad_item:
  "\<not> item_ok conn item \<Longrightarrow> validate_items conn idx (item # rest) =
     Inl (if quantity item \<le> 0 then
            HTTPException 400 (''Item '' @ py_str (int idx + 1) @ '': Quantity must be greater than 0'')
          else if \<not> sqlite_int (product_id item) then int_too_large
          else HTTPException 400 (''Product '' @ py_str (product_id item) @ '' not found''))"
  by (auto simp: item_ok_def fetchone_None)

lemma validate_items_ok_prefix:
  "list_all (item_ok conn) pre \<Longrightarrow>
   validate_items conn idx (pre @ its) = validate_items conn (idx + length pre) its"
proof (induction pre arbitrary: idx)
  case Nil
  then show ?case by simp
next
  case (Cons item pre)
  then have "validate_items conn idx ((item # pre) @ its) = validate_items conn (Suc idx) (pre @ its)"
    by (simp add: validate_items_ok_item del: validate_items.simps)
  also have "\<dots> = validate_items conn (Suc idx + length pre) its"
    using Cons by simp
  finally show ?case by simp
qed

lemma validate_items_first_failing:
  assumes "dropWhile (item_ok conn) its = item # rest"
  shows "validate_items conn idx its =
     Inl (if quantity item \<le> 0 then
            HTTPException 400 (''Item '' @ py_str (int (idx + length (takeWhile (item_ok conn) its)) + 1)
              @ '': Quantity must be greater than 0'')
          else if \<not> sqlite_int (product_id item) then int_too_large
          else HTTPException 400 (''Product '' @ py_str (product_id item) @ '' not found''))"
proof -
  have bad: "\<not> item_ok conn item"
    using assms hd_dropWhile [of "item_ok conn" its] by auto
  have all: "list_all (item_ok conn) (takeWhile (item_ok conn) its)"
    by (simp add: list_all_iff) (meson set_takeWhileD)
  have "validate_items conn idx its
      = validate_items conn idx (takeWhile (item_ok conn) its @ item # rest)"
    using assms takeWhile_dropWhile_id [of "item_ok conn" its] by simp
  also have "\<dots> = validate_items conn (idx + length (takeWhile (item_ok conn) its)) (item # rest)"
    using all by (rule validate_items_ok_prefix)
  also have "\<dots> = Inl (if quantity item \<le> 0 then
            HTTPException 400 (''Item '' @ py_str (int (idx + length (takeWhile (item_ok conn) its)) + 1)
              @ '': Quantity must be greater than 0'')
          else if \<not> sqlite_int (product_id item) then int_too_large
          else HTTPException 400 (''Product '' @ py_str (product_id item) @ '' not found''))"
    using bad by (rule validate_items_bad_item)
  finally show ?thesis .
qed

lemma dropWhile_nth:
  "dropWhile P xs = y # ys \<Longrightarrow> xs ! length (takeWhile P xs) = y"
proof -
  assume a: "dropWhile P xs = y # ys"
  have "xs = takeWhile P xs @ y # ys"
    using a takeWhile_dropWhile_id [of P xs] by simp
  then have "xs ! length (takeWhile P xs) = (takeWhile P xs @ y # ys) ! length (takeWhile P xs)"
    by simp
  then show ?thesis by (simp only: nth_append_length)
qed

lemma first_failing_message:
  assumes "list_all fst (fixed_checks conn invoice)"
    and "first_failing_item conn (items invoice) = Some k"
  shows "validate_invoice_input conn invoice =
     Inl (if quantity (items invoice ! (k - 1)) \<le> 0 then
            HTTPException 400 (''Item '' @ py_str (int k) @ '': Quantity must be greater than 0'')
          else if \<not> sqlite_int (product_id (items invoice ! (k - 1))) then int_too_large
          else HTTPException 400 (''Product '' @ py_str (product_id (items invoice ! (k - 1))) @ '' not found''))"
proof -
  from assms(2) obtain item rest where dw: "dropWhile (item_ok conn) (items invoice) = item # rest"
    and k: "k = Suc (length (takeWhile (item_ok conn) (items invoice)))"
    by (cases "dropWhile (item_ok conn) (items invoice)") (auto simp: first_failing_item_def split: if_splits)
  have nth: "items invoice ! (k - 1) = item"
    using dropWhile_nth [OF dw] k by simp
  have ik: "int (0 + length (takeWhile (item_ok conn) (items invoice))) + 1 = int k"
    using k by simp
  have "validate_invoice_input conn invoice = validate_items conn 0 (items invoice)"
    using assms(1) by (auto simp: validate_invoice_input_def fixed_checks_def Let_def fetchone_None)
  also have "\<dots> = Inl (if quantity item \<le> 0 then
            HTTPException 400 (''Item '' @ py_str (int k) @ '': Quantity must be greater than 0'')
          else if \<not> sqlite_int (product_id item) then int_too_large
          else HTTPException 400 (''Product '' @ py_str (product_id item) @ '' not found''))"
    unfolding validate_items_first_failing [OF dw, of 0] ik ..
  finally show ?thesis unfolding nth .
qed

lemma checks_exceptions:
  "list_all (\<lambda>c. (\<exists>d. snd c = HTTPException 400 d) \<or> snd c = int_too_large) (ordered_checks conn invoice)"
proof -
  have "list_all (\<lambda>c. (\<exists>d. snd c = HTTPException 400 d) \<or> snd c = int_too_large) (items_checks conn pos its)"
    for pos its
    by (induction its arbitrary: pos) (simp_all add: item_checks_def)
  then show ?thesis
    by (simp add: ordered_checks_def fixed_checks_def)
qed

text \<open>
  C5, as amended: the checks run in the fixed order date shape, date order, client exists,
  items non-empty, tax non-negative, then for each item in request order quantity positive
  and product exists; each of the two lookups first binds its id, which raises an
  OverflowError (answered with a 500 error) for an id outside the signed 64-bit range. The
  exception raised is that of the first check that fails; every other failure is a 400 error,
  and the reasons of different checks differ. When the first failing item fails on its
  quantity, the message reports the item's position counted from one; when it fails because
  its product id, within the 64-bit range, matches no product row, the message reports the
  product id, not the position.
\<close>

theorem validation_checks_in_order:
  "validate_invoice_input conn invoice = first_failure (ordered_checks conn invoice)
   \<and> list_all (\<lambda>c. (\<exists>d. snd c = HTTPException 400 d) \<or> snd c = int_too_large) (ordered_checks conn invoice)
   \<and> distinct [''Dates must be in format YYYY-MM-DD'', ''Due date must be after or equal to issue date'',
        ''Client '' @ py_str c @ '' not found'', ''Invoice must have at least one item'',
        ''Tax cannot be negative'', ''Item '' @ py_str q @ '': Quantity must be greater than 0'',
        ''Product '' @ py_str p @ '' not found'']
   \<and> (list_all fst (fixed_checks conn invoice) \<and> first_failing_item conn (items invoice) = Some k \<longrightarrow>
        validate_invoice_input conn invoice =
          Inl (if quantity (items invoice ! (k - 1)) \<le> 0 then
                 HTTPException 400 (''Item '' @ py_str (int k) @ '': Quantity must be greater than 0'')
               else if \<not> sqlite_int (product_id (items invoice ! (k - 1))) then int_too_large
               else HTTPException 400 (''Product '' @ py_str (product_id (items invoice ! (k - 1))) @ '' not found'')))
   \<and> (validate_invoice_input conn invoice = Inl e \<longrightarrow>
        create_invoice conn invoice = (Inl (except_clauses e), conn))"
  using validate_ordered_checks [of conn invoice] checks_exceptions [of conn invoice] reasons_distinct [of c q p]
    first_failing_message [of conn invoice k] create_invalid [of conn invoice e]
  by blast

lemma zero_quantity_fixed_ok: "list_all fst (fixed_checks scenario_db zero_quantity_second_request)"
  by code_simp

lemma huge_product_fixed_ok: "list_all fst (fixed_checks scenario_db huge_product_second_request)"
  by code_simp

lemma huge_product_first_failing:
  "first_failing_item scenario_db (items huge_product_second_request) = Some 2"
  by code_simp

lemma zero_quantity_first_failing:
  "first_failing_item scenario_db (items zero_quantity_second_request) = Some 2"
  by code_simp

theorem validation_checks_in_order_witness:
  "first_failing_item scenario_db (items zero_quantity_second_request) = Some 2
   \<and> validate_invoice_input scenario_db zero_quantity_second_request
        = Inl (HTTPException 400 ''Item 2: Quantity must be greater than 0'')
   \<and> create_invoice scenario_db zero_quantity_second_request
        = (Inl (HTTPException 400 ''Item 2: Quantity must be greater than 0''), scenario_db)
   \<and> first_failing_item scenario_db (items huge_product_second_request) = Some 2
   \<and> validate_invoice_input scenario_db huge_product_second_request = Inl int_too_large
   \<and> first_failure (ordered_checks scenario_db scenario_request) = Inr ()"
proof -
  from validation_checks_in_order [where conn = scenario_db and invoice = zero_quantity_second_request and k = 2]
    zero_quantity_fixed_ok zero_quantity_first_failing
  have "validate_invoice_input scenario_db zero_quantity_second_request =
          Inl (if quantity (items zero_quantity_second_request ! (2 - 1)) \<le> 0 then
                 HTTPException 400 (''Item '' @ py_str (int 2) @ '': Quantity must be greater than 0'')
               else if \<not> sqlite_int (product_id (items zero_quantity_second_request ! (2 - 1))) then int_too_large
               else HTTPException 400 (''Product '' @ py_str (product_id (items zero_quantity_second_request ! (2 - 1))) @ '' not found''))"
    by blast
  then have a: "validate_invoice_input scenario_db zero_quantity_second_request
        = Inl (HTTPException 400 ''Item 2: Quantity must be greater than 0'')"
    by (simp add: request_defs py_str_2)
  from validation_checks_in_order [where conn = scenario_db and invoice = zero_quantity_second_request
      and e = "HTTPException 400 ''Item 2: Quantity must be greater than 0''"] a
  have "create_invoice scenario_db zero_quantity_second_request
        = (Inl (except_clauses (HTTPException 400 ''Item 2: Quantity must be greater than 0'')), scenario_db)"
    by blast
  then have a': "create_invoice scenario_db zero_quantity_second_request
        = (Inl (HTTPException 400 ''Item 2: Quantity must be greater than 0''), scenario_db)"
    by simp
  from validation_checks_in_order [where conn = scenario_db and invoice = huge_product_second_request and k = 2]
    huge_product_fixed_ok huge_product_first_failing
  have "validate_invoice_input scenario_db huge_product_second_request =
          Inl (if quantity (items huge_product_second_request ! (2 - 1)) \<le> 0 then
                 HTTPException 400 (''Item '' @ py_str (int 2) @ '': Quantity must be greater than 0'')
               else if \<not> sqlite_int (product_id (items huge_product_second_request ! (2 - 1))) then int_too_large
               else HTTPException 400 (''Product '' @ py_str (product_id (items huge_product_second_request ! (2 - 1))) @ '' not found''))"
    by blast
  then have h: "validate_invoice_input scenario_db huge_product_second_request = Inl int_too_large"
    by (simp add: huge_product_second_request_def sqlite_int_def LARGEST_INT64_def)
  from validation_checks_in_order [where conn = scenario_db and invoice = scenario_request]
  have "first_failure (ordered_checks scenario_db scenario_request) = validate_invoice_input scenario_db scenario_request"
    by simp
  then have b: "first_failure (ordered_checks scenario_db scenario_request) = Inr ()"
    by (simp add: scenario_valid)
  show ?thesis using zero_quantity_first_failing a a' huge_product_first_failing h b by blast
qed

lemma occurs_2: "\<not> occurs_in (py_str 2) ''Product 99 not found''"
  by (simp add: py_str_2)

lemma missing_product_positions:
  "first_failing_item scenario_db (items missing_product_second_request) = Some 2"
  "first_failing_item scenario_db (items missing_product_first_request) = Some 1"
  by code_simp+

theorem validation_product_message_counterexample:
  "first_failing_item scenario_db (items missing_product_second_request) = Some 2
   \<and> validate_invoice_input scenario_db missing_product_second_request = Inl (HTTPException 400 ''Product 99 not found'')
   \<and> \<not> occurs_in (py_str 2) ''Product 99 not found''
   \<and> first_failing_item scenario_db (items missing_product_first_request) = Some 1
   \<and> validate_invoice_input scenario_db missing_product_first_request = Inl (HTTPException 400 ''Product 99 not found'')"
  using missing_product_positions missing_product_second_rejected missing_product_first_rejected occurs_2
  by blast

section \<open>Facts about the double arithmetic\<close>

lemma dyadic_Finite: "\<exists>m' e'. dyadic m e = Finite m' e' \<and> (0 \<le> m \<longrightarrow> 0 \<le> m')"
proof (induction m e rule: dyadic.induct)
  case (1 m e)
  show ?case
  proof (cases "m = 0")
    case True
    then show ?thesis by (subst dyadic.simps) simp
  next
    case False
    show ?thesis
    proof (cases "even m")
      case True
      with False 1 obtain m' e' where "dyadic (m div 2) (e + 1) = Finite m' e'" "0 \<le> m div 2 \<longrightarrow> 0 \<le> m'"
        by blast
      with False True show ?thesis by (subst dyadic.simps) auto
    next
      case odd: False
      with False show ?thesis by (subst dyadic.simps) simp
    qed
  qed
qed

lemma dyadic_not_NaN: "dyadic m e \<noteq> NaN"
  using dyadic_Finite [of m e] by auto



lemma float_nonneg_simps [simp]:
  "float_nonneg (Finite m e) = (0 \<le> m)" "float_nonneg PosInf" "\<not> float_nonneg NegInf" "\<not> float_nonneg NaN"
  by (simp_all add: float_nonneg_def)



















section \<open>Creating an invoice: totals\<close>







subsection \<open>What a served request has done\<close>










subsection \<open>When a validated request is served\<close>










subsection \<open>A validated request that is not served is answered with a 500 error\<close>








subsection \<open>The scenario and the trace that reuses a number\<close>




text \<open>
  C1: on the trace create, create, delete the second invoice, create, starting from an empty
  invoices table, the three successful creates are given the numbers INV-001, INV-002 and
  INV-002: the number of the deleted invoice is assigned again (to the invoice with row id
  3), so the assigned numbers are not unique.
\<close>

theorem deleted_number_is_reused:
  "invoices scenario_db = []
   \<and> assigned_numbers scenario_db reuse_trace = [''INV-001'', ''INV-002'', ''INV-002'']
   \<and> \<not> distinct (assigned_numbers scenario_db reuse_trace)
   \<and> map_sum id (\<lambda>r. (r_id r, r_invoice_no r)) (fst (create_invoice scenario_db_created scenario_request))
        = Inr (2, ''INV-002'')
   \<and> map_sum id (\<lambda>r. (r_id r, r_invoice_no r)) (fst (create_invoice scenario_db_after_delete scenario_request))
        = Inr (3, ''INV-002'')"
proof -
  have t: "assigned_numbers scenario_db reuse_trace = [''INV-001'', ''INV-002'', ''INV-002'']"
    by code_simp
  have e: "invoices scenario_db = []" by (simp add: scenario_db_def)
  have a: "map_sum id (\<lambda>r. (r_id r, r_invoice_no r)) (fst (create_invoice scenario_db_created scenario_request))
        = Inr (2, ''INV-002'')"
    by code_simp
  have b: "map_sum id (\<lambda>r. (r_id r, r_invoice_no r)) (fst (create_invoice scenario_db_after_delete scenario_request))
        = Inr (3, ''INV-002'')"
    by code_simp
  show ?thesis using e a b by (simp add: t)
qed












section \<open>Migrations\<close>

lemma forward_ledger: "forward m s = Inr s' \<Longrightarrow> migrations_ledger s' = migrations_ledger s"
  by (cases m) (auto simp: Let_def split: option.splits)

lemma upgrade_skip:
  "migrations_ledger s = Some applied \<Longrightarrow> migration_name m \<in> set applied \<Longrightarrow> upgrade m s = Inr s"
  by (simp add: upgrade_def)

lemma upgrade_apply:
  "migrations_ledger s = Some applied \<Longrightarrow> migration_name m \<notin> set applied \<Longrightarrow>
   upgrade m s = (case forward m s of Inl e \<Rightarrow> Inl e
                  | Inr s' \<Rightarrow> Inr (s'\<lparr>migrations_ledger := Some (applied @ [migration_name m])\<rparr>))"
  by (simp add: upgrade_def)

lemma upgrade_records:
  assumes "upgrade m s = Inr s'"
  shows "\<exists>applied. migrations_ledger s' = Some applied \<and> migration_name m \<in> set applied"
proof -
  from assms obtain applied where l: "migrations_ledger s = Some applied"
    by (cases "migrations_ledger s") (auto simp: upgrade_def)
  show ?thesis
  proof (cases "migration_name m \<in> set applied")
    case True
    with assms l show ?thesis by (simp add: upgrade_def)
  next
    case False
    with assms l obtain s1 where "forward m s = Inr s1"
      and "s' = s1\<lparr>migrations_ledger := Some (applied @ [migration_name m])\<rparr>"
      by (cases "forward m s") (auto simp: upgrade_def)
    then show ?thesis by simp
  qed
qed

lemma upgrade_idempotent: "upgrade m s = Inr s' \<Longrightarrow> upgrade m s' = Inr s'"
  using upgrade_records [of m s s'] upgrade_skip [of s' _ m] by blast

text \<open>
  C9: the upgrade of each migration unit is idempotent. When the ledger \<open>_migrations\<close> already
  holds the unit's name, upgrade returns the store as it is, with no forward statement run;
  so a second upgrade from the state after a successful upgrade gives that same state.
  Otherwise upgrade runs the unit's forward statements and then records the name in the ledger.
\<close>

theorem upgrade_is_idempotent:
  "(migrations_ledger s = Some applied \<and> migration_name m \<in> set applied \<longrightarrow> upgrade m s = Inr s)
   \<and> (upgrade m s = Inr s' \<longrightarrow> upgrade m s' = Inr s')
   \<and> (migrations_ledger s = Some applied \<and> migration_name m \<notin> set applied \<longrightarrow>
        upgrade m s = (case forward m s of Inl e \<Rightarrow> Inl e
                       | Inr s1 \<Rightarrow> Inr (s1\<lparr>migrations_ledger := Some (applied @ [migration_name m])\<rparr>)))"
  using upgrade_skip [of s applied m] upgrade_idempotent [of m s s'] upgrade_apply [of s applied m]
  by blast

lemma upgrade_002_fresh:
  "upgrade M002_create_products_table ledger_only_store
     = Inr (ledger_only_store\<lparr>products_table := Some [], migrations_ledger := Some [''002_create_products_table'']\<rparr>)"
  by (simp add: upgrade_def ledger_only_store_def create_table_if_not_exists_def)

lemma upgrade_006_no_tables:
  "upgrade M006_seed_products_and_clients ledger_only_store = Inl (OperationalError ''no such table: products'')"
  by (simp add: upgrade_def ledger_only_store_def)

lemma length_insert_products: "length (fst (insert_products vs tbl)) = length (fst tbl) + length vs"
  by (induction vs arbitrary: tbl) (simp_all add: Let_def)

lemma length_insert_clients: "length (fst (insert_clients vs tbl)) = length (fst tbl) + length vs"
  by (induction vs arbitrary: tbl) (simp_all add: Let_def)

lemma seed_upgrade_succeeds:
  "\<exists>s1. upgrade M006_seed_products_and_clients empty_tables_store = Inr s1
     \<and> map_option length (products_table s1) = Some 8 \<and> map_option length (clients_table s1) = Some 5"
proof -
  have "length seed_products = 8" "length seed_clients = 5"
    by (simp_all add: seed_products_def seed_clients_def)
  then show ?thesis
    by (simp add: upgrade_def empty_tables_store_def ledger_only_store_def Let_def
        length_insert_products length_insert_clients
        del: insert_products.simps insert_clients.simps)
qed

theorem upgrade_is_idempotent_witness:
  "upgrade M002_create_products_table ledger_only_store
     = Inr (ledger_only_store\<lparr>products_table := Some [], migrations_ledger := Some [''002_create_products_table'']\<rparr>)
   \<and> upgrade M002_create_products_table
        (ledger_only_store\<lparr>products_table := Some [], migrations_ledger := Some [''002_create_products_table'']\<rparr>)
     = Inr (ledger_only_store\<lparr>products_table := Some [], migrations_ledger := Some [''002_create_products_table'']\<rparr>)
   \<and> (case upgrade M006_seed_products_and_clients empty_tables_store of
         Inl e \<Rightarrow> False
       | Inr s1 \<Rightarrow> upgrade M006_seed_products_and_clients s1 = Inr s1
            \<and> map_option length (products_table s1) = Some 8)"
proof -
  from upgrade_is_idempotent [of ledger_only_store "[]" M002_create_products_table
      "ledger_only_store\<lparr>products_table := Some [], migrations_ledger := Some [''002_create_products_table'']\<rparr>"]
    upgrade_002_fresh
  have a: "upgrade M002_create_products_table
        (ledger_only_store\<lparr>products_table := Some [], migrations_ledger := Some [''002_create_products_table'']\<rparr>)
     = Inr (ledger_only_store\<lparr>products_table := Some [], migrations_ledger := Some [''002_create_products_table'']\<rparr>)"
    by blast
  from seed_upgrade_succeeds obtain s1 where
    s1: "upgrade M006_seed_products_and_clients empty_tables_store = Inr s1"
    "map_option length (products_table s1) = Some 8"
    by blast
  from upgrade_is_idempotent [of empty_tables_store
      "[''002_create_products_table'', ''003_create_clients_table'']" M006_seed_products_and_clients s1] s1(1)
  have "upgrade M006_seed_products_and_clients s1 = Inr s1"
    by blast
  with s1 have b: "(case upgrade M006_seed_products_and_clients empty_tables_store of
         Inl e \<Rightarrow> False
       | Inr s1 \<Rightarrow> upgrade M006_seed_products_and_clients s1 = Inr s1
            \<and> map_option length (products_table s1) = Some 8)"
    by simp
  show ?thesis using upgrade_002_fresh a b by blast
qed

end
